theory Spec2Isabelle
  imports Main "HOL-Library.Word" "HOL-Library.Finite_Map" "HOL-Library.Char_ord"
    "HOL-Library.List_Lexorder"
begin

text \<open>
  The betting part of the Betfair API-NG client: the enumerated constants, the request
  and result structs with their JSON tags, the seven public operations and the helper
  \<open>doBettingRequest\<close> they share (betting.go), and the parameter envelope and the
  five filter-only operations of the older version of the same file. The calls that
  leave the package (\<open>encoding/json\<close> and the HTTP helper \<open>doRequest\<close>) are
  parameters of the operations; what \<open>json.Marshal\<close> writes for the request and
  result structs is modelled from their fields and tags.
\<close>

section \<open>Enumerated string types and their constants (betting.go, lines 36-133)\<close>

text \<open>
  Every enumeration of the package is a named type whose underlying type is the Go
  \<open>string\<close>; the constants are string literals.
\<close>

type_synonym baseEnumVal = string
type_synonym OrderProjVal = baseEnumVal
type_synonym MarketProjVal = baseEnumVal
type_synonym MatchProjVal = baseEnumVal
type_synonym PriceDataVal = baseEnumVal
type_synonym RunnerStatusVal = baseEnumVal
type_synonym OrderTypeVal = baseEnumVal
type_synonym OrderStatusVal = baseEnumVal
type_synonym PersistenceTypeVal = baseEnumVal
type_synonym SideVal = baseEnumVal

definition SideBack :: SideVal where "SideBack = ''BACK''"
definition SideLay :: string where "SideLay = ''LAY''"

definition OrderProjectionAll :: OrderProjVal where "OrderProjectionAll = ''ALL''"
definition OrderProjectionExecutable :: string where
  "OrderProjectionExecutable = ''EXECUTABLE''"
definition OrderProjectionExecutionComplete :: string where
  "OrderProjectionExecutionComplete = ''EXECUTION_COMPLETE''"

definition OrderStatusExecutionComplete :: OrderStatusVal where
  "OrderStatusExecutionComplete = OrderProjectionExecutionComplete"
definition OrderStatusExecutable :: string where
  "OrderStatusExecutable = OrderProjectionExecutable"

definition MatchProjectionNoRollup :: MatchProjVal where
  "MatchProjectionNoRollup = ''NO_ROLLUP''"
definition MatchProjectionRolledUpByPrice :: string where
  "MatchProjectionRolledUpByPrice = ''ROLLED_UP_BY_PRICE''"
definition MatchProjectionRolledUpByAvgPrice :: string where
  "MatchProjectionRolledUpByAvgPrice = ''ROLLED_UP_BY_AVG_PRICE''"

definition MarketProjectionCompetition :: MarketProjVal where
  "MarketProjectionCompetition = ''COMPETITION''"
definition MarketProjectionEvent :: string where
  "MarketProjectionEvent = ''EVENT''"
definition MarketProjectionEventType :: string where
  "MarketProjectionEventType = ''EVENT_TYPE''"
definition MarketProjectionMarketStartTime :: string where
  "MarketProjectionMarketStartTime = ''MARKET_START_TIME''"
definition MarketProjectionMarketDescription :: string where
  "MarketProjectionMarketDescription = ''MARKET_DESCRIPTION''"
definition MarketProjectionRunnerDescription :: string where
  "MarketProjectionRunnerDescription = ''RUNNER_DESCRIPTION''"
definition MarketProjectionRunnerMetadata :: string where
  "MarketProjectionRunnerMetadata = ''RUNNER_METADATA''"

definition PriceDataSPAvailable :: PriceDataVal where
  "PriceDataSPAvailable = ''SP_AVAILABLE''"
definition PriceDataSPTraded :: string where "PriceDataSPTraded = ''SP_TRADED''"
definition PriceDataEXBestOffers :: string where
  "PriceDataEXBestOffers = ''EX_BEST_OFFERS''"
definition PriceDataEXAllOffers :: string where
  "PriceDataEXAllOffers = ''EX_ALL_OFFERS''"
definition PriceDataEXTraded :: string where "PriceDataEXTraded = ''EX_TRADED''"

definition RunnerStatusActive :: RunnerStatusVal where "RunnerStatusActive = ''ACTIVE''"
definition RunnerStatusWinner :: string where "RunnerStatusWinner = ''WINNER''"
definition RunnerStatusLoser :: string where "RunnerStatusLoser = ''LOSER''"
definition RunnerStatusRemovedVacant :: string where
  "RunnerStatusRemovedVacant = ''REMOVED_VACANT''"
definition RunnerStatusRemoved :: string where "RunnerStatusRemoved = ''REMOVED''"
definition RunnerStatusHidden :: string where "RunnerStatusHidden = ''HIDDEN''"

definition PersistenceTypeLapse :: PersistenceTypeVal where
  "PersistenceTypeLapse = ''LAPSE''"
definition PersistenceTypePersist :: string where
  "PersistenceTypePersist = ''PERSIST''"
definition PersistenceTypeMarketOnClose :: string where
  "PersistenceTypeMarketOnClose = ''MARKET_ON_CLOSE''"

definition OrderTypeLimit :: OrderTypeVal where "OrderTypeLimit = ''LIMIT''"
definition OrderTypeLimitOnClose :: string where
  "OrderTypeLimitOnClose = ''LIMIT_ON_CLOSE''"
definition OrderTypeMarketOnClose :: string where
  "OrderTypeMarketOnClose = ''MARKET_ON_CLOSE''"

section \<open>Go values\<close>

text \<open>
  A slice is \<open>None\<close> when it is nil and \<open>Some xs\<close> otherwise; a pointer to a struct
  is \<open>None\<close> when it is nil. None of the functions below writes through a pointer it
  was given, so a pointer is modelled by the value it points to.
\<close>

type_synonym 'a slice = "'a list option"

fun len :: "'a slice \<Rightarrow> nat" where
  "len None = 0"
| "len (Some xs) = length xs"

text \<open>
  A \<open>float32\<close> is its IEEE 754 bit pattern: it compares equal to 0 when all bits but
  the sign are 0, and it is an infinity or a NaN when its eight exponent bits are all 1.
  A \<open>time.Time\<close> is the civil date and time it shows, with the offset of its zone in
  seconds.
\<close>

datatype float32 = Float32 (bits: "32 word")

definition float32_eq_0 :: "float32 \<Rightarrow> bool" where
  "float32_eq_0 f = (and (bits f) 0x7FFFFFFF = 0)"

definition IsInf_or_IsNaN :: "float32 \<Rightarrow> bool" where
  "IsInf_or_IsNaN f = (and (bits f) 0x7F800000 = 0x7F800000)"

record Time =
  year :: int
  month :: nat
  day :: nat
  hour :: nat
  minute :: nat
  second :: nat
  nanosecond :: nat
  offset :: int

text \<open>A call either panics (a nil dereference) or returns.\<close>

datatype 'a outcome = Panics | Returns 'a

datatype error = Error string

section \<open>The JSON documents produced by \<open>encoding/json\<close>\<close>

text \<open>
  \<open>json.Marshal\<close> is modelled up to the document it writes: an object is the list of
  its members in the order they are written. The text of a scalar is not modelled
  (the digits of a number, the escapes of a string, the RFC 3339 text of a time):
  \<open>JFloat f\<close> is the number written for \<open>f\<close>, \<open>JTime t\<close> the string written for
  \<open>t\<close>.
\<close>

datatype json =
    JNull
  | JBool bool
  | JNumber int
  | JFloat float32
  | JString string
  | JTime Time
  | JArray "json list"
  | JObject "(string \<times> json) list"

fun keys :: "json \<Rightarrow> string list" where
  "keys (JObject kvs) = map fst kvs"
| "keys _ = []"

text \<open>
  Scalars. A string-kinded value (every enumerated type is one) is written as a JSON
  string, an integer as a number. \<open>json.Marshal\<close> refuses a float that is an
  infinity or a NaN, and \<open>Time.MarshalJSON\<close> refuses a year outside 0..9999.
\<close>

definition marshal_string :: "string \<Rightarrow> error + json" where
  "marshal_string v = Inr (JString v)"

definition marshal_int :: "64 word \<Rightarrow> error + json" where
  "marshal_int v = Inr (JNumber (sint v))"

definition marshal_uint32 :: "32 word \<Rightarrow> error + json" where
  "marshal_uint32 v = Inr (JNumber (uint v))"

definition marshal_float32 :: "float32 \<Rightarrow> error + json" where
  "marshal_float32 v =
     (if IsInf_or_IsNaN v then Inl (Error ''json: unsupported value'') else Inr (JFloat v))"

definition marshal_Time :: "Time \<Rightarrow> error + json" where
  "marshal_Time t =
     (if year t < 0 \<or> 10000 \<le> year t
      then Inl (Error ''Time.MarshalJSON: year outside of range [0,9999]'')
      else Inr (JTime t))"

text \<open>
  Slices and pointers: nil is written \<open>null\<close>; the elements of a slice are written in
  order and the first error ends the encoding.
\<close>

fun elements :: "(error + json) list \<Rightarrow> error + json list" where
  "elements [] = Inr []"
| "elements (x # xs) =
     (case x of
        Inl e \<Rightarrow> Inl e
      | Inr j \<Rightarrow> (case elements xs of Inl e \<Rightarrow> Inl e | Inr js \<Rightarrow> Inr (j # js)))"

fun marshal_slice :: "('a \<Rightarrow> error + json) \<Rightarrow> 'a slice \<Rightarrow> error + json" where
  "marshal_slice enc None = Inr JNull"
| "marshal_slice enc (Some xs) =
     (case elements (map enc xs) of Inl e \<Rightarrow> Inl e | Inr js \<Rightarrow> Inr (JArray js))"

fun marshal_ptr :: "('a \<Rightarrow> error + json) \<Rightarrow> 'a option \<Rightarrow> error + json" where
  "marshal_ptr enc None = Inr JNull"
| "marshal_ptr enc (Some x) = enc x"

text \<open>
  Structs. A field is written under the name of its tag, or under its Go name when it
  has no tag. A field tagged \<open>omitempty\<close> is left out when its value is empty: false,
  0, a nil pointer, or a string or slice of length 0; \<open>encoding/json\<close> counts no
  struct value as empty. The fields are written in the order of their declaration,
  and the first error ends the encoding.
\<close>

definition field :: "string \<Rightarrow> error + json \<Rightarrow> error + (string \<times> json) list" where
  "field name v = (case v of Inl e \<Rightarrow> Inl e | Inr j \<Rightarrow> Inr [(name, j)])"

definition omitempty ::
  "bool \<Rightarrow> string \<Rightarrow> error + json \<Rightarrow> error + (string \<times> json) list" where
  "omitempty isEmptyValue name v = (if isEmptyValue then Inr [] else field name v)"

fun members :: "(error + (string \<times> json) list) list \<Rightarrow> error + (string \<times> json) list" where
  "members [] = Inr []"
| "members (f # fs) =
     (case f of
        Inl e \<Rightarrow> Inl e
      | Inr kv \<Rightarrow> (case members fs of Inl e \<Rightarrow> Inl e | Inr kvs \<Rightarrow> Inr (kv @ kvs)))"

definition object :: "(error + (string \<times> json) list) list \<Rightarrow> error + json" where
  "object fs = (case members fs of Inl e \<Rightarrow> Inl e | Inr kvs \<Rightarrow> Inr (JObject kvs))"

section \<open>Request parameters (betting.go, lines 135-180)\<close>

record MarketFilter =
  TextQuery :: string
  ExchangeIds :: "string slice"
  EventTypeIds :: "string slice"
  EventIds :: "string slice"
  CompetitionIds :: "string slice"
  MarketCountries :: "string slice"
  MarketIds :: "string slice"
  MarketTypeCodes :: "string slice"

record PriceProjection =
  PriceData :: "PriceDataVal slice"

record ProjectionParams =
  MarketProjection :: "MarketProjVal slice"
  PriceProjection :: "PriceProjection option"
  OrderProjection :: OrderProjVal
  MatchProjection :: MatchProjVal

text \<open>The Go \<open>int\<close> of \<open>MaxResults\<close> is a 64-bit signed machine integer.\<close>

record Params =
  MarketFilter :: "MarketFilter option"
  MarketIds :: "string slice"
  PriceProjection :: "PriceProjection option"
  MarketProjection :: "MarketProjVal slice"
  OrderProjection :: OrderProjVal
  MatchProjection :: MatchProjVal
  MaxResults :: "64 word"
  Locale :: string

text \<open>\<open>new(Params)\<close>: every field at its zero value.\<close>

definition new_Params :: Params where
  "new_Params = \<lparr>Params.MarketFilter = None, MarketIds = None, PriceProjection = None,
     MarketProjection = None, OrderProjection = [], MatchProjection = [],
     MaxResults = 0, Locale = []\<rparr>"

text \<open>
  \<open>SetProjections\<close> reads through its argument, which is a pointer: a nil argument
  panics at the first assignment.
\<close>

fun SetProjections :: "Params \<Rightarrow> ProjectionParams option \<Rightarrow> Params outcome" where
  "SetProjections p None = Panics"
| "SetProjections p (Some params) =
     Returns (p\<lparr>Params.PriceProjection := ProjectionParams.PriceProjection params,
                Params.MarketProjection := ProjectionParams.MarketProjection params,
                Params.OrderProjection := ProjectionParams.OrderProjection params,
                Params.MatchProjection := ProjectionParams.MatchProjection params\<rparr>)"

subsection \<open>What \<open>json.Marshal\<close> writes for the tagged request structs\<close>

definition marshal_MarketFilter :: "MarketFilter \<Rightarrow> error + json" where
  "marshal_MarketFilter f = object [
     omitempty (length (TextQuery f) = 0) ''textQuery'' (marshal_string (TextQuery f)),
     omitempty (len (ExchangeIds f) = 0) ''exchangeIds''
       (marshal_slice marshal_string (ExchangeIds f)),
     omitempty (len (EventTypeIds f) = 0) ''eventTypeIds''
       (marshal_slice marshal_string (EventTypeIds f)),
     omitempty (len (EventIds f) = 0) ''eventIds''
       (marshal_slice marshal_string (EventIds f)),
     omitempty (len (CompetitionIds f) = 0) ''competitionIds''
       (marshal_slice marshal_string (CompetitionIds f)),
     omitempty (len (MarketCountries f) = 0) ''marketCountries''
       (marshal_slice marshal_string (MarketCountries f)),
     omitempty (len (MarketFilter.MarketIds f) = 0) ''marketIds''
       (marshal_slice marshal_string (MarketFilter.MarketIds f)),
     omitempty (len (MarketTypeCodes f) = 0) ''marketTypeCodes''
       (marshal_slice marshal_string (MarketTypeCodes f))]"

definition marshal_PriceProjection :: "PriceProjection \<Rightarrow> error + json" where
  "marshal_PriceProjection pp = object [
     omitempty (len (PriceData pp) = 0) ''priceData''
       (marshal_slice marshal_string (PriceData pp))]"

definition marshal_Params :: "Params \<Rightarrow> error + json" where
  "marshal_Params p = object [
     omitempty (Params.MarketFilter p = None) ''filter''
       (marshal_ptr marshal_MarketFilter (Params.MarketFilter p)),
     omitempty (len (Params.MarketIds p) = 0) ''marketIds''
       (marshal_slice marshal_string (Params.MarketIds p)),
     omitempty (Params.PriceProjection p = None) ''priceProjection''
       (marshal_ptr marshal_PriceProjection (Params.PriceProjection p)),
     omitempty (len (Params.MarketProjection p) = 0) ''marketProjection''
       (marshal_slice marshal_string (Params.MarketProjection p)),
     omitempty (length (Params.OrderProjection p) = 0) ''orderProjection''
       (marshal_string (Params.OrderProjection p)),
     omitempty (length (Params.MatchProjection p) = 0) ''matchProjection''
       (marshal_string (Params.MatchProjection p)),
     omitempty (Params.MaxResults p = 0) ''maxResults'' (marshal_int (Params.MaxResults p)),
     omitempty (length (Params.Locale p) = 0) ''locale'' (marshal_string (Params.Locale p))]"

section \<open>Result types (betting.go, lines 182-356)\<close>

record EventType =
  ID :: string
  Name :: string

record EventTypeResult =
  EventType :: "EventType option"
  MarketCount :: "64 word"

record Competition =
  Id :: string
  Name :: string

record CompetitionResult =
  Competition :: "Competition option"
  MarketCount :: "64 word"
  CompetitionRegion :: string

record CountryCodeResult =
  CountryCode :: string
  MarketCount :: "64 word"

record Event =
  Id :: string
  Name :: string
  CountryCode :: string
  Timezone :: string
  Venue :: string
  OpenDate :: Time

record EventResult =
  Event :: "Event option"
  MarketCount :: "64 word"

record PriceSize =
  Price :: float32
  Size :: float32

record StartingPrices =
  NearPrice :: float32
  FarPrice :: float32
  BackStakeTaken :: "PriceSize slice"
  LayLiabilityTaken :: "PriceSize slice"
  ActualSP :: float32

record ExchangePrices =
  AvailableToBack :: "PriceSize slice"
  AvailableToLay :: "PriceSize slice"
  TradedVolume :: "PriceSize slice"

record Order =
  BetId :: string
  OrderType :: OrderTypeVal
  Status :: OrderStatusVal
  PersistenceType :: PersistenceTypeVal
  Side :: SideVal
  Price :: float32
  Size :: float32
  BspLiability :: float32
  PlacedDate :: Time
  AvgPriceMatched :: float32
  SizeMatched :: float32
  SizeRemaining :: float32
  SizeLapsed :: float32
  SizeCancelled :: float32
  SizeVoided :: float32

record Match =
  BetID :: string
  MatchDate :: Time
  MatchID :: string
  Price :: string
  Side :: SideVal
  Size :: float32

record Runner =
  SelectionID :: "32 word"
  Handicap :: float32
  Status :: RunnerStatusVal
  AdjustmentFactor :: float32
  LastPriceTraded :: float32
  TotalMatched :: float32
  RemovalDate :: Time
  StartingPrices :: StartingPrices
  ExchangePrices :: ExchangePrices
  Orders :: "Order slice"
  Matches :: "Match slice"

record MarketBook =
  MarketId :: string
  IsMarketDataDelayed :: bool
  Status :: string
  BetDelay :: "64 word"
  BspReconciled :: bool
  Complete :: bool
  Inplay :: bool
  NumberOfWinners :: "64 word"
  NumberOfRunners :: "64 word"
  NumberOfActiveRunners :: "64 word"
  LastMatchTime :: Time
  TotalMatched :: float32
  TotalAvailable :: float32
  CrossMatching :: bool
  RunnersVoidable :: bool
  Version :: "64 word"
  Runners :: "Runner slice"

record RunnerCatalog =
  SelectionId :: "32 word"
  RunnerName :: string
  Handicap :: float32
  SortPriority :: "64 word"
  Metadata :: "(string, string) fmap option"

record MarketDescription =
  PersistenceEnabled :: bool
  BspMarket :: bool
  MarketTime :: Time
  SuspendTime :: Time
  SettleTime :: Time
  BettingType :: string
  TurnInPlayEnabled :: bool
  MarketType :: string
  Regulator :: string
  MarketBaseRate :: float32
  DiscountAllowed :: bool
  Wallet :: string
  Rules :: string
  RulesHasDate :: bool
  Clarifications :: string

record MarketCatalogue =
  MarketId :: string
  MarketName :: string
  MarketStartTime :: Time
  Description :: "MarketDescription option"
  TotalMatched :: float32
  Runners :: "RunnerCatalog slice"
  EventType :: "EventType option"
  Competition :: "Competition option"
  Event :: "Event option"

record MarketTypeResult =
  MarketType :: string
  MarketCount :: "64 word"

subsection \<open>What \<open>json.Marshal\<close> writes for a runner and its parts\<close>

definition marshal_PriceSize :: "PriceSize \<Rightarrow> error + json" where
  "marshal_PriceSize ps = object [
     omitempty (float32_eq_0 (PriceSize.Price ps)) ''price''
       (marshal_float32 (PriceSize.Price ps)),
     omitempty (float32_eq_0 (PriceSize.Size ps)) ''size''
       (marshal_float32 (PriceSize.Size ps))]"

definition marshal_StartingPrices :: "StartingPrices \<Rightarrow> error + json" where
  "marshal_StartingPrices sp = object [
     omitempty (float32_eq_0 (NearPrice sp)) ''nearPrice'' (marshal_float32 (NearPrice sp)),
     omitempty (float32_eq_0 (FarPrice sp)) ''farPrice'' (marshal_float32 (FarPrice sp)),
     omitempty (len (BackStakeTaken sp) = 0) ''backStakeTaken''
       (marshal_slice marshal_PriceSize (BackStakeTaken sp)),
     omitempty (len (LayLiabilityTaken sp) = 0) ''layLiabilityTaken''
       (marshal_slice marshal_PriceSize (LayLiabilityTaken sp)),
     omitempty (float32_eq_0 (ActualSP sp)) ''actualSP'' (marshal_float32 (ActualSP sp))]"

definition marshal_ExchangePrices :: "ExchangePrices \<Rightarrow> error + json" where
  "marshal_ExchangePrices ex = object [
     omitempty (len (AvailableToBack ex) = 0) ''availableToBack''
       (marshal_slice marshal_PriceSize (AvailableToBack ex)),
     omitempty (len (AvailableToLay ex) = 0) ''availableToLay''
       (marshal_slice marshal_PriceSize (AvailableToLay ex)),
     omitempty (len (TradedVolume ex) = 0) ''TradedVolume''
       (marshal_slice marshal_PriceSize (TradedVolume ex))]"

definition marshal_Order :: "Order \<Rightarrow> error + json" where
  "marshal_Order ord = object [
     field ''BetId'' (marshal_string (BetId ord)),
     field ''OrderType'' (marshal_string (OrderType ord)),
     field ''Status'' (marshal_string (Order.Status ord)),
     field ''PersistenceType'' (marshal_string (PersistenceType ord)),
     field ''Side'' (marshal_string (Order.Side ord)),
     field ''Price'' (marshal_float32 (Order.Price ord)),
     field ''Size'' (marshal_float32 (Order.Size ord)),
     field ''BspLiability'' (marshal_float32 (BspLiability ord)),
     field ''PlacedDate'' (marshal_Time (PlacedDate ord)),
     field ''AvgPriceMatched'' (marshal_float32 (AvgPriceMatched ord)),
     field ''SizeMatched'' (marshal_float32 (SizeMatched ord)),
     field ''SizeRemaining'' (marshal_float32 (SizeRemaining ord)),
     field ''SizeLapsed'' (marshal_float32 (SizeLapsed ord)),
     field ''SizeCancelled'' (marshal_float32 (SizeCancelled ord)),
     field ''SizeVoided'' (marshal_float32 (SizeVoided ord))]"

text \<open>
  \<open>MatchDate\<close> is a struct (a \<open>time.Time\<close>): its \<open>omitempty\<close> never leaves it
  out. \<open>Price\<close>, \<open>Side\<close> and \<open>Size\<close> are tagged without \<open>omitempty\<close>.
\<close>

definition marshal_Match :: "Match \<Rightarrow> error + json" where
  "marshal_Match m = object [
     omitempty (length (BetID m) = 0) ''betId'' (marshal_string (BetID m)),
     omitempty False ''matchDate'' (marshal_Time (MatchDate m)),
     omitempty (length (MatchID m) = 0) ''matchId'' (marshal_string (MatchID m)),
     field ''price'' (marshal_string (Match.Price m)),
     field ''side'' (marshal_string (Match.Side m)),
     field ''size'' (marshal_float32 (Match.Size m))]"

text \<open>
  \<open>RemovalDate\<close>, \<open>StartingPrices\<close> and \<open>ExchangePrices\<close> are structs: their
  \<open>omitempty\<close> never leaves them out.
\<close>

definition marshal_Runner :: "Runner \<Rightarrow> error + json" where
  "marshal_Runner r = object [
     omitempty (SelectionID r = 0) ''selectionId'' (marshal_uint32 (SelectionID r)),
     omitempty (float32_eq_0 (Runner.Handicap r)) ''handicap''
       (marshal_float32 (Runner.Handicap r)),
     omitempty (length (Runner.Status r) = 0) ''status'' (marshal_string (Runner.Status r)),
     omitempty (float32_eq_0 (AdjustmentFactor r)) ''adjustmentFactor''
       (marshal_float32 (AdjustmentFactor r)),
     omitempty (float32_eq_0 (LastPriceTraded r)) ''lastPriceTraded''
       (marshal_float32 (LastPriceTraded r)),
     omitempty (float32_eq_0 (Runner.TotalMatched r)) ''totalMatched''
       (marshal_float32 (Runner.TotalMatched r)),
     omitempty False ''removalDate'' (marshal_Time (RemovalDate r)),
     omitempty False ''sp'' (marshal_StartingPrices (Runner.StartingPrices r)),
     omitempty False ''ex'' (marshal_ExchangePrices (Runner.ExchangePrices r)),
     omitempty (len (Orders r) = 0) ''orders'' (marshal_slice marshal_Order (Orders r)),
     omitempty (len (Matches r) = 0) ''matches'' (marshal_slice marshal_Match (Matches r))]"

subsection \<open>What \<open>json.Marshal\<close> writes for the result structs\<close>

text \<open>
  The result structs and the structs they hold, a runner and its parts apart, carry no
  tags: every field is written, under its Go name. A map is written as an object
  whose keys are in ascending order, a nil map as \<open>null\<close>.
\<close>

definition marshal_bool :: "bool \<Rightarrow> error + json" where
  "marshal_bool v = Inr (JBool v)"

definition marshal_map :: "(string, string) fmap option \<Rightarrow> error + json" where
  "marshal_map v =
     (case v of
        None \<Rightarrow> Inr JNull
      | Some m \<Rightarrow>
          Inr (JObject (map (\<lambda>k. (k, case fmlookup m k of None \<Rightarrow> JNull | Some x \<Rightarrow> JString x))
                 (sorted_list_of_fset (fmdom m)))))"

definition marshal_EventType :: "EventType \<Rightarrow> error + json" where
  "marshal_EventType et = object [
     field ''ID'' (marshal_string (EventType.ID et)),
     field ''Name'' (marshal_string (EventType.Name et))]"

definition marshal_EventTypeResult :: "EventTypeResult \<Rightarrow> error + json" where
  "marshal_EventTypeResult r = object [
     field ''EventType'' (marshal_ptr marshal_EventType (EventTypeResult.EventType r)),
     field ''MarketCount'' (marshal_int (EventTypeResult.MarketCount r))]"

definition marshal_Competition :: "Competition \<Rightarrow> error + json" where
  "marshal_Competition c = object [
     field ''Id'' (marshal_string (Competition.Id c)),
     field ''Name'' (marshal_string (Competition.Name c))]"

definition marshal_CompetitionResult :: "CompetitionResult \<Rightarrow> error + json" where
  "marshal_CompetitionResult r = object [
     field ''Competition'' (marshal_ptr marshal_Competition (CompetitionResult.Competition r)),
     field ''MarketCount'' (marshal_int (CompetitionResult.MarketCount r)),
     field ''CompetitionRegion'' (marshal_string (CompetitionRegion r))]"

definition marshal_CountryCodeResult :: "CountryCodeResult \<Rightarrow> error + json" where
  "marshal_CountryCodeResult r = object [
     field ''CountryCode'' (marshal_string (CountryCodeResult.CountryCode r)),
     field ''MarketCount'' (marshal_int (CountryCodeResult.MarketCount r))]"

definition marshal_Event :: "Event \<Rightarrow> error + json" where
  "marshal_Event ev = object [
     field ''Id'' (marshal_string (Event.Id ev)),
     field ''Name'' (marshal_string (Event.Name ev)),
     field ''CountryCode'' (marshal_string (Event.CountryCode ev)),
     field ''Timezone'' (marshal_string (Timezone ev)),
     field ''Venue'' (marshal_string (Venue ev)),
     field ''OpenDate'' (marshal_Time (OpenDate ev))]"

definition marshal_EventResult :: "EventResult \<Rightarrow> error + json" where
  "marshal_EventResult r = object [
     field ''Event'' (marshal_ptr marshal_Event (EventResult.Event r)),
     field ''MarketCount'' (marshal_int (EventResult.MarketCount r))]"

definition marshal_MarketBook :: "MarketBook \<Rightarrow> error + json" where
  "marshal_MarketBook b = object [
     field ''MarketId'' (marshal_string (MarketBook.MarketId b)),
     field ''IsMarketDataDelayed'' (marshal_bool (IsMarketDataDelayed b)),
     field ''Status'' (marshal_string (MarketBook.Status b)),
     field ''BetDelay'' (marshal_int (BetDelay b)),
     field ''BspReconciled'' (marshal_bool (BspReconciled b)),
     field ''Complete'' (marshal_bool (Complete b)),
     field ''Inplay'' (marshal_bool (Inplay b)),
     field ''NumberOfWinners'' (marshal_int (NumberOfWinners b)),
     field ''NumberOfRunners'' (marshal_int (NumberOfRunners b)),
     field ''NumberOfActiveRunners'' (marshal_int (NumberOfActiveRunners b)),
     field ''LastMatchTime'' (marshal_Time (LastMatchTime b)),
     field ''TotalMatched'' (marshal_float32 (MarketBook.TotalMatched b)),
     field ''TotalAvailable'' (marshal_float32 (TotalAvailable b)),
     field ''CrossMatching'' (marshal_bool (CrossMatching b)),
     field ''RunnersVoidable'' (marshal_bool (RunnersVoidable b)),
     field ''Version'' (marshal_int (Version b)),
     field ''Runners'' (marshal_slice marshal_Runner (MarketBook.Runners b))]"

definition marshal_RunnerCatalog :: "RunnerCatalog \<Rightarrow> error + json" where
  "marshal_RunnerCatalog rc = object [
     field ''SelectionId'' (marshal_uint32 (SelectionId rc)),
     field ''RunnerName'' (marshal_string (RunnerName rc)),
     field ''Handicap'' (marshal_float32 (RunnerCatalog.Handicap rc)),
     field ''SortPriority'' (marshal_int (SortPriority rc)),
     field ''Metadata'' (marshal_map (Metadata rc))]"

definition marshal_MarketDescription :: "MarketDescription \<Rightarrow> error + json" where
  "marshal_MarketDescription d = object [
     field ''PersistenceEnabled'' (marshal_bool (PersistenceEnabled d)),
     field ''BspMarket'' (marshal_bool (BspMarket d)),
     field ''MarketTime'' (marshal_Time (MarketTime d)),
     field ''SuspendTime'' (marshal_Time (SuspendTime d)),
     field ''SettleTime'' (marshal_Time (SettleTime d)),
     field ''BettingType'' (marshal_string (BettingType d)),
     field ''TurnInPlayEnabled'' (marshal_bool (TurnInPlayEnabled d)),
     field ''MarketType'' (marshal_string (MarketDescription.MarketType d)),
     field ''Regulator'' (marshal_string (Regulator d)),
     field ''MarketBaseRate'' (marshal_float32 (MarketBaseRate d)),
     field ''DiscountAllowed'' (marshal_bool (DiscountAllowed d)),
     field ''Wallet'' (marshal_string (Wallet d)),
     field ''Rules'' (marshal_string (Rules d)),
     field ''RulesHasDate'' (marshal_bool (RulesHasDate d)),
     field ''Clarifications'' (marshal_string (Clarifications d))]"

definition marshal_MarketCatalogue :: "MarketCatalogue \<Rightarrow> error + json" where
  "marshal_MarketCatalogue c = object [
     field ''MarketId'' (marshal_string (MarketCatalogue.MarketId c)),
     field ''MarketName'' (marshal_string (MarketName c)),
     field ''MarketStartTime'' (marshal_Time (MarketStartTime c)),
     field ''Description'' (marshal_ptr marshal_MarketDescription (Description c)),
     field ''TotalMatched'' (marshal_float32 (MarketCatalogue.TotalMatched c)),
     field ''Runners'' (marshal_slice marshal_RunnerCatalog (MarketCatalogue.Runners c)),
     field ''EventType'' (marshal_ptr marshal_EventType (MarketCatalogue.EventType c)),
     field ''Competition'' (marshal_ptr marshal_Competition (MarketCatalogue.Competition c)),
     field ''Event'' (marshal_ptr marshal_Event (MarketCatalogue.Event c))]"

definition marshal_MarketTypeResult :: "MarketTypeResult \<Rightarrow> error + json" where
  "marshal_MarketTypeResult r = object [
     field ''MarketType'' (marshal_string (MarketTypeResult.MarketType r)),
     field ''MarketCount'' (marshal_int (MarketTypeResult.MarketCount r))]"

text \<open>The zero values of the structs above.\<close>

definition zero_Time :: Time where
  "zero_Time = \<lparr>year = 1, month = 1, day = 1, hour = 0, minute = 0, second = 0,
     nanosecond = 0, offset = 0\<rparr>"

definition zero_Match :: Match where
  "zero_Match = \<lparr>BetID = [], MatchDate = zero_Time, MatchID = [], Price = [], Side = [],
     Size = Float32 0\<rparr>"

definition zero_StartingPrices :: StartingPrices where
  "zero_StartingPrices = \<lparr>NearPrice = Float32 0, FarPrice = Float32 0,
     BackStakeTaken = None, LayLiabilityTaken = None, ActualSP = Float32 0\<rparr>"

definition zero_ExchangePrices :: ExchangePrices where
  "zero_ExchangePrices = \<lparr>AvailableToBack = None, AvailableToLay = None,
     TradedVolume = None\<rparr>"

definition zero_Runner :: Runner where
  "zero_Runner = \<lparr>SelectionID = 0, Handicap = Float32 0, Status = [],
     AdjustmentFactor = Float32 0, LastPriceTraded = Float32 0, TotalMatched = Float32 0,
     RemovalDate = zero_Time, StartingPrices = zero_StartingPrices,
     ExchangePrices = zero_ExchangePrices, Orders = None, Matches = None\<rparr>"





section \<open>The session and the calls a request makes\<close>

text \<open>
  Modelled from the spec: the \<open>Session\<close> type and its \<open>config\<close> are declared
  outside the given sources. \<open>doBettingRequest\<close> reads \<open>s.config.Locale\<close> only, a
  string; whatever else the session and its configuration carry for \<open>doRequest\<close>
  (the spec names session and authentication headers) is the extension of the two
  records. A session is a non-nil \<open>*Session\<close>.
\<close>

record Config =
  Locale :: string

record 'c Session =
  config :: "'c Config_scheme"

type_synonym ('c, 'z) session = "('c, 'z) Session_scheme"

text \<open>
  Three calls leave the package: \<open>json.Marshal\<close>, the HTTP helper \<open>doRequest\<close>
  (declared outside the given sources) and \<open>json.Unmarshal\<close>. Each may fail, so
  each is a parameter that returns an error or a value; \<open>'p\<close> is the type of the
  parameter envelope, \<open>'s\<close> of the session and \<open>'b\<close> of the bytes exchanged.
  \<open>json.Unmarshal\<close> writes through the pointer it is given and may have done so
  when it fails: it returns the new pointee together with its error.
\<close>

record ('p, 's, 'b, 'r) io =
  json_Marshal :: "'p \<Rightarrow> error + 'b"
  doRequest :: "'s \<Rightarrow> string \<Rightarrow> string \<Rightarrow> 'b \<Rightarrow> error + 'b"
  json_Unmarshal :: "'b \<Rightarrow> 'r \<Rightarrow> 'r \<times> error option"

text \<open>
  What a run of \<open>doBettingRequest\<close> leaves behind: the calls of \<open>doRequest\<close> it made
  (section, path and body of each), the parameter envelope and the target \<open>v\<close> as
  they are afterwards, and the error returned.
\<close>

record ('p, 'b, 'r) run =
  sent :: "(string \<times> string \<times> 'b) list"
  envelope :: 'p
  target :: 'r
  returned :: "error option"

definition doBettingRequest ::
  "(Params, ('c, 'z) session, 'b, 'r) io \<Rightarrow> ('c, 'z) session \<Rightarrow> string \<Rightarrow> Params \<Rightarrow> 'r
     \<Rightarrow> (Params, 'b, 'r) run" where
  "doBettingRequest io s method params v =
     (let params = params\<lparr>Params.Locale := Config.Locale (config s)\<rparr> in
      case json_Marshal io params of
        Inl e \<Rightarrow> \<lparr>sent = [], envelope = params, target = v, returned = Some e\<rparr>
      | Inr bytes \<Rightarrow>
          (let body = bytes in
           case doRequest io s ''betting'' (method @ ''/'') body of
             Inl e \<Rightarrow> \<lparr>sent = [(''betting'', method @ ''/'', body)], envelope = params,
                        target = v, returned = Some e\<rparr>
           | Inr data \<Rightarrow>
               (case json_Unmarshal io data v of
                  (v', Some e) \<Rightarrow> \<lparr>sent = [(''betting'', method @ ''/'', body)],
                                   envelope = params, target = v', returned = Some e\<rparr>
                | (v', None) \<Rightarrow> \<lparr>sent = [(''betting'', method @ ''/'', body)],
                                 envelope = params, target = v', returned = None\<rparr>)))"

section \<open>The public operations (betting.go, lines 358-433)\<close>

text \<open>
  An operation returns its result slice and its error; the model also keeps the calls
  of \<open>doRequest\<close> made on the way.
\<close>

record ('b, 'r) reply =
  requests :: "(string \<times> string \<times> 'b) list"
  results :: 'r
  err :: "error option"

definition reply_of :: "('p, 'b, 'r) run \<Rightarrow> ('b, 'r) reply" where
  "reply_of d = \<lparr>requests = sent d, results = target d, err = returned d\<rparr>"

definition ListCompetitions ::
  "(Params, ('c, 'z) session, 'b, CompetitionResult slice) io \<Rightarrow> ('c, 'z) session
     \<Rightarrow> MarketFilter option
     \<Rightarrow> ('b, CompetitionResult slice) reply" where
  "ListCompetitions io s fltr =
     (let results = None;
          params = new_Params;
          params = params\<lparr>Params.MarketFilter := fltr\<rparr>
      in reply_of (doBettingRequest io s ''listCompetitions'' params results))"

definition ListCountries ::
  "(Params, ('c, 'z) session, 'b, CountryCodeResult slice) io \<Rightarrow> ('c, 'z) session
     \<Rightarrow> MarketFilter option
     \<Rightarrow> ('b, CountryCodeResult slice) reply" where
  "ListCountries io s fltr =
     (let results = None;
          params = new_Params;
          params = params\<lparr>Params.MarketFilter := fltr\<rparr>
      in reply_of (doBettingRequest io s ''listCountries'' params results))"

definition ListEvents ::
  "(Params, ('c, 'z) session, 'b, EventResult slice) io \<Rightarrow> ('c, 'z) session
     \<Rightarrow> MarketFilter option
     \<Rightarrow> ('b, EventResult slice) reply" where
  "ListEvents io s fltr =
     (let results = None;
          params = new_Params;
          params = params\<lparr>Params.MarketFilter := fltr\<rparr>
      in reply_of (doBettingRequest io s ''listEvents'' params results))"

definition ListEventTypes ::
  "(Params, ('c, 'z) session, 'b, EventTypeResult slice) io \<Rightarrow> ('c, 'z) session
     \<Rightarrow> MarketFilter option
     \<Rightarrow> ('b, EventTypeResult slice) reply" where
  "ListEventTypes io s fltr =
     (let results = None;
          params = new_Params;
          params = params\<lparr>Params.MarketFilter := fltr\<rparr>
      in reply_of (doBettingRequest io s ''listEventTypes'' params results))"

definition ListMarketBook ::
  "(Params, ('c, 'z) session, 'b, MarketBook slice) io \<Rightarrow> ('c, 'z) session
     \<Rightarrow> string slice \<Rightarrow> ProjectionParams option
     \<Rightarrow> ('b, MarketBook slice) reply outcome" where
  "ListMarketBook io s marketIds projectionsParam =
     (let results = None;
          params = new_Params;
          params = params\<lparr>Params.MarketIds := marketIds\<rparr>
      in case SetProjections params projectionsParam of
           Panics \<Rightarrow> Panics
         | Returns params \<Rightarrow>
             Returns (reply_of (doBettingRequest io s ''listMarketBook'' params results)))"

definition ListMarketCatalogue ::
  "(Params, ('c, 'z) session, 'b, MarketCatalogue slice) io \<Rightarrow> ('c, 'z) session
     \<Rightarrow> MarketFilter option \<Rightarrow> 64 word
     \<Rightarrow> ProjectionParams option \<Rightarrow> ('b, MarketCatalogue slice) reply outcome" where
  "ListMarketCatalogue io s fltr maxResults projectionsParam =
     (let results = None;
          params = new_Params;
          params = params\<lparr>Params.MarketFilter := fltr\<rparr>;
          params = params\<lparr>Params.MaxResults := maxResults\<rparr>
      in case SetProjections params projectionsParam of
           Panics \<Rightarrow> Panics
         | Returns params \<Rightarrow>
             Returns (reply_of (doBettingRequest io s ''listMarketCatalogue'' params results)))"

definition ListMarketTypes ::
  "(Params, ('c, 'z) session, 'b, MarketTypeResult slice) io \<Rightarrow> ('c, 'z) session
     \<Rightarrow> MarketFilter option
     \<Rightarrow> ('b, MarketTypeResult slice) reply" where
  "ListMarketTypes io s fltr =
     (let results = None;
          params = new_Params;
          params = params\<lparr>Params.MarketFilter := fltr\<rparr>
      in reply_of (doBettingRequest io s ''listMarketTypes'' params results))"

section \<open>The older version of the package\<close>

text \<open>
  The older file (the unnamed source part 000) declares \<open>MarketFilter\<close>, \<open>PriceProjection\<close> (its \<open>PriceData\<close> a
  slice of strings) and the result types of the five filter-only operations as the
  current file does; they are shared here. Its \<open>Params\<close> differs: \<open>OrderProjection\<close>
  and \<open>MatchProjection\<close> are slices.
\<close>

record Params_old =
  MarketFilter :: "MarketFilter option"
  MarketIds :: "string slice"
  PriceProjection :: "PriceProjection option"
  MarketProjection :: "MarketProjVal slice"
  OrderProjection :: "OrderProjVal slice"
  MatchProjection :: "MatchProjVal slice"
  MaxResults :: "64 word"
  Locale :: string

definition new_Params_old :: Params_old where
  "new_Params_old = \<lparr>Params_old.MarketFilter = None, MarketIds = None,
     PriceProjection = None, MarketProjection = None, OrderProjection = None,
     MatchProjection = None, MaxResults = 0, Locale = []\<rparr>"

definition marshal_Params_old :: "Params_old \<Rightarrow> error + json" where
  "marshal_Params_old p = object [
     omitempty (Params_old.MarketFilter p = None) ''filter''
       (marshal_ptr marshal_MarketFilter (Params_old.MarketFilter p)),
     omitempty (len (Params_old.MarketIds p) = 0) ''marketIds''
       (marshal_slice marshal_string (Params_old.MarketIds p)),
     omitempty (Params_old.PriceProjection p = None) ''priceProjection''
       (marshal_ptr marshal_PriceProjection (Params_old.PriceProjection p)),
     omitempty (len (Params_old.MarketProjection p) = 0) ''marketProjection''
       (marshal_slice marshal_string (Params_old.MarketProjection p)),
     omitempty (len (Params_old.OrderProjection p) = 0) ''orderProjection''
       (marshal_slice marshal_string (Params_old.OrderProjection p)),
     omitempty (len (Params_old.MatchProjection p) = 0) ''matchProjection''
       (marshal_slice marshal_string (Params_old.MatchProjection p)),
     omitempty (Params_old.MaxResults p = 0) ''maxResults''
       (marshal_int (Params_old.MaxResults p)),
     omitempty (length (Params_old.Locale p) = 0) ''locale''
       (marshal_string (Params_old.Locale p))]"

definition doBettingRequest_old ::
  "(Params_old, ('c, 'z) session, 'b, 'r) io \<Rightarrow> ('c, 'z) session \<Rightarrow> string \<Rightarrow> Params_old
     \<Rightarrow> 'r \<Rightarrow> (Params_old, 'b, 'r) run" where
  "doBettingRequest_old io s method params v =
     (let params = params\<lparr>Params_old.Locale := Config.Locale (config s)\<rparr> in
      case json_Marshal io params of
        Inl e \<Rightarrow> \<lparr>sent = [], envelope = params, target = v, returned = Some e\<rparr>
      | Inr bytes \<Rightarrow>
          (let body = bytes in
           case doRequest io s ''betting'' (method @ ''/'') body of
             Inl e \<Rightarrow> \<lparr>sent = [(''betting'', method @ ''/'', body)], envelope = params,
                        target = v, returned = Some e\<rparr>
           | Inr data \<Rightarrow>
               (case json_Unmarshal io data v of
                  (v', Some e) \<Rightarrow> \<lparr>sent = [(''betting'', method @ ''/'', body)],
                                   envelope = params, target = v', returned = Some e\<rparr>
                | (v', None) \<Rightarrow> \<lparr>sent = [(''betting'', method @ ''/'', body)],
                                 envelope = params, target = v', returned = None\<rparr>)))"

definition ListCompetitions_old ::
  "(Params_old, ('c, 'z) session, 'b, CompetitionResult slice) io \<Rightarrow> ('c, 'z) session
     \<Rightarrow> MarketFilter option \<Rightarrow> ('b, CompetitionResult slice) reply" where
  "ListCompetitions_old io s fltr =
     (let results = None;
          params = new_Params_old;
          params = params\<lparr>Params_old.MarketFilter := fltr\<rparr>
      in reply_of (doBettingRequest_old io s ''listCompetitions'' params results))"

definition ListCountries_old ::
  "(Params_old, ('c, 'z) session, 'b, CountryCodeResult slice) io \<Rightarrow> ('c, 'z) session
     \<Rightarrow> MarketFilter option \<Rightarrow> ('b, CountryCodeResult slice) reply" where
  "ListCountries_old io s fltr =
     (let results = None;
          params = new_Params_old;
          params = params\<lparr>Params_old.MarketFilter := fltr\<rparr>
      in reply_of (doBettingRequest_old io s ''listCountries'' params results))"

definition ListEvents_old ::
  "(Params_old, ('c, 'z) session, 'b, EventResult slice) io \<Rightarrow> ('c, 'z) session
     \<Rightarrow> MarketFilter option \<Rightarrow> ('b, EventResult slice) reply" where
  "ListEvents_old io s fltr =
     (let results = None;
          params = new_Params_old;
          params = params\<lparr>Params_old.MarketFilter := fltr\<rparr>
      in reply_of (doBettingRequest_old io s ''listEvents'' params results))"

definition ListEventTypes_old ::
  "(Params_old, ('c, 'z) session, 'b, EventTypeResult slice) io \<Rightarrow> ('c, 'z) session
     \<Rightarrow> MarketFilter option \<Rightarrow> ('b, EventTypeResult slice) reply" where
  "ListEventTypes_old io s fltr =
     (let results = None;
          params = new_Params_old;
          params = params\<lparr>Params_old.MarketFilter := fltr\<rparr>
      in reply_of (doBettingRequest_old io s ''listEventTypes'' params results))"

definition ListMarketTypes_old ::
  "(Params_old, ('c, 'z) session, 'b, MarketTypeResult slice) io \<Rightarrow> ('c, 'z) session
     \<Rightarrow> MarketFilter option \<Rightarrow> ('b, MarketTypeResult slice) reply" where
  "ListMarketTypes_old io s fltr =
     (let results = None;
          params = new_Params_old;
          params = params\<lparr>Params_old.MarketFilter := fltr\<rparr>
      in reply_of (doBettingRequest_old io s ''listMarketTypes'' params results))"

text \<open>
  The three calls as the Go library makes them for a transport \<open>d\<close> and a decoder
  \<open>u\<close>: \<open>json.Marshal\<close> is the encoder of the envelope's type.
\<close>

definition go_io ::
  "('s \<Rightarrow> string \<Rightarrow> string \<Rightarrow> json \<Rightarrow> error + json) \<Rightarrow> (json \<Rightarrow> 'r \<Rightarrow> 'r \<times> error option)
     \<Rightarrow> (Params, 's, json, 'r) io" where
  "go_io d u = \<lparr>json_Marshal = marshal_Params, doRequest = d, json_Unmarshal = u\<rparr>"

definition go_io_old ::
  "('s \<Rightarrow> string \<Rightarrow> string \<Rightarrow> json \<Rightarrow> error + json) \<Rightarrow> (json \<Rightarrow> 'r \<Rightarrow> 'r \<times> error option)
     \<Rightarrow> (Params_old, 's, json, 'r) io" where
  "go_io_old d u = \<lparr>json_Marshal = marshal_Params_old, doRequest = d, json_Unmarshal = u\<rparr>"

section \<open>Notation for the properties\<close>

text \<open>
  On the success path an operation has sent one request, whose body is the encoded
  envelope, and returns what the decoder made of the response.
\<close>

abbreviation serializes_calls_decodes ::
  "('p, 's, 'b, 'r slice) io \<Rightarrow> 's \<Rightarrow> string \<Rightarrow> 'p \<Rightarrow> ('b, 'r slice) reply \<Rightarrow> bool" where
  "serializes_calls_decodes io s path p r \<equiv>
     (\<forall>bytes data. json_Marshal io p = Inr bytes \<and> doRequest io s ''betting'' path bytes = Inr data
        \<longrightarrow> r = \<lparr>requests = [(''betting'', path, bytes)],
                 results = fst (json_Unmarshal io data None),
                 err = snd (json_Unmarshal io data None)\<rparr>)"

text \<open>
  On each failure path an operation returns the error it met, having sent at most one
  request; its result is still nil when the failure comes before decoding.
\<close>

abbreviation returns_errors_unchanged ::
  "('p, 's, 'b, 'r slice) io \<Rightarrow> 's \<Rightarrow> string \<Rightarrow> 'p \<Rightarrow> ('b, 'r slice) reply \<Rightarrow> bool" where
  "returns_errors_unchanged io s path p r \<equiv>
     (\<forall>e. json_Marshal io p = Inl e \<longrightarrow> r = \<lparr>requests = [], results = None, err = Some e\<rparr>)
     \<and> (\<forall>bytes e. json_Marshal io p = Inr bytes \<and> doRequest io s ''betting'' path bytes = Inl e
          \<longrightarrow> r = \<lparr>requests = [(''betting'', path, bytes)], results = None, err = Some e\<rparr>)
     \<and> (\<forall>bytes data v e. json_Marshal io p = Inr bytes
            \<and> doRequest io s ''betting'' path bytes = Inr data
            \<and> json_Unmarshal io data None = (v, Some e)
          \<longrightarrow> r = \<lparr>requests = [(''betting'', path, bytes)], results = v, err = Some e\<rparr>)"











text \<open>A session for the examples.\<close>

definition example_session :: "(unit, unit) session" where
  "example_session = \<lparr>config = \<lparr>Config.Locale = ''en''\<rparr>\<rparr>"

section \<open>Encoding lemmas\<close>

lemma elements_strings: "elements (map marshal_string xs) = Inr (map JString xs)"
  by (induction xs) (simp_all add: marshal_string_def)

lemma marshal_slice_strings:
  "marshal_slice marshal_string v =
     Inr (case v of None \<Rightarrow> JNull | Some xs \<Rightarrow> JArray (map JString xs))"
  by (cases v) (simp_all add: elements_strings)

lemma omitempty_Inr: "omitempty c n (Inr j) = Inr (if c then [] else [(n, j)])"
  by (simp add: omitempty_def field_def)

lemma members_omitempty_keys:
  "members (omitempty c n v # fs) = Inr kvs \<Longrightarrow>
     \<exists>kvs'. members fs = Inr kvs' \<and> map fst kvs = (if c then [] else [n]) @ map fst kvs'"
  by (cases v; cases "members fs"; cases c) (auto simp: omitempty_def field_def)

lemma members_field_keys:
  "members (field n v # fs) = Inr kvs \<Longrightarrow>
     \<exists>kvs'. members fs = Inr kvs' \<and> map fst kvs = n # map fst kvs'"
  by (cases v; cases "members fs") (auto simp: field_def)

lemma object_keys:
  "object fs = Inr doc \<Longrightarrow> \<exists>kvs. members fs = Inr kvs \<and> keys doc = map fst kvs"
  by (cases "members fs") (auto simp: object_def)

lemma in_optional: "x \<in> set (if c then [] else [n]) \<longleftrightarrow> \<not> c \<and> x = n"
  by simp

lemma optional_subset: "set (if c then [] else [n]) \<subseteq> S \<longleftrightarrow> c \<or> n \<in> S"
  by simp

text \<open>The request structs are always encoded.\<close>

lemma marshal_MarketFilter_ok: "\<exists>doc. marshal_MarketFilter f = Inr doc"
  by (simp add: marshal_MarketFilter_def object_def omitempty_Inr
      marshal_slice_strings marshal_string_def split del: if_split)

lemma marshal_PriceProjection_ok: "\<exists>doc. marshal_PriceProjection pp = Inr doc"
  by (simp add: marshal_PriceProjection_def object_def omitempty_Inr
      marshal_slice_strings split del: if_split)

lemma marshal_ptr_MarketFilter_ok: "\<exists>j. marshal_ptr marshal_MarketFilter v = Inr j"
  using marshal_MarketFilter_ok by (cases v) auto

lemma marshal_ptr_PriceProjection_ok: "\<exists>j. marshal_ptr marshal_PriceProjection v = Inr j"
  using marshal_PriceProjection_ok by (cases v) auto

lemma marshal_Params_ok: "\<exists>doc. marshal_Params p = Inr doc"
proof -
  obtain jf where jf: "marshal_ptr marshal_MarketFilter (Params.MarketFilter p) = Inr jf"
    using marshal_ptr_MarketFilter_ok by blast
  obtain jp where jp: "marshal_ptr marshal_PriceProjection (Params.PriceProjection p) = Inr jp"
    using marshal_ptr_PriceProjection_ok by blast
  show ?thesis
    by (simp add: marshal_Params_def object_def omitempty_Inr jf jp
        marshal_slice_strings marshal_string_def marshal_int_def split del: if_split)
qed

text \<open>The keys of an encoded struct, in the order they are written.\<close>

lemma Params_keys:
  assumes "marshal_Params p = Inr doc"
  shows "keys doc =
     (if Params.MarketFilter p = None then [] else [''filter'']) @
     (if len (Params.MarketIds p) = 0 then [] else [''marketIds'']) @
     (if Params.PriceProjection p = None then [] else [''priceProjection'']) @
     (if len (Params.MarketProjection p) = 0 then [] else [''marketProjection'']) @
     (if Params.OrderProjection p = [] then [] else [''orderProjection'']) @
     (if Params.MatchProjection p = [] then [] else [''matchProjection'']) @
     (if Params.MaxResults p = 0 then [] else [''maxResults'']) @
     (if Params.Locale p = [] then [] else [''locale''])"
  using assms unfolding marshal_Params_def
  by (auto dest!: object_keys members_omitempty_keys split del: if_split)

lemma MarketFilter_keys:
  assumes "marshal_MarketFilter f = Inr doc"
  shows "keys doc =
     (if TextQuery f = [] then [] else [''textQuery'']) @
     (if len (ExchangeIds f) = 0 then [] else [''exchangeIds'']) @
     (if len (EventTypeIds f) = 0 then [] else [''eventTypeIds'']) @
     (if len (EventIds f) = 0 then [] else [''eventIds'']) @
     (if len (CompetitionIds f) = 0 then [] else [''competitionIds'']) @
     (if len (MarketCountries f) = 0 then [] else [''marketCountries'']) @
     (if len (MarketFilter.MarketIds f) = 0 then [] else [''marketIds'']) @
     (if len (MarketTypeCodes f) = 0 then [] else [''marketTypeCodes''])"
  using assms unfolding marshal_MarketFilter_def
  by (auto dest!: object_keys members_omitempty_keys split del: if_split)

lemma PriceProjection_keys:
  assumes "marshal_PriceProjection pp = Inr doc"
  shows "keys doc = (if len (PriceData pp) = 0 then [] else [''priceData''])"
  using assms unfolding marshal_PriceProjection_def
  by (auto dest!: object_keys members_omitempty_keys split del: if_split)

lemma Runner_keys:
  assumes "marshal_Runner r = Inr doc"
  shows "keys doc =
     (if SelectionID r = 0 then [] else [''selectionId'']) @
     (if float32_eq_0 (Runner.Handicap r) then [] else [''handicap'']) @
     (if Runner.Status r = [] then [] else [''status'']) @
     (if float32_eq_0 (AdjustmentFactor r) then [] else [''adjustmentFactor'']) @
     (if float32_eq_0 (LastPriceTraded r) then [] else [''lastPriceTraded'']) @
     (if float32_eq_0 (Runner.TotalMatched r) then [] else [''totalMatched'']) @
     [''removalDate'', ''sp'', ''ex''] @
     (if len (Orders r) = 0 then [] else [''orders'']) @
     (if len (Matches r) = 0 then [] else [''matches''])"
  using assms unfolding marshal_Runner_def
  by (auto dest!: object_keys members_omitempty_keys split del: if_split)

lemma Match_keys:
  assumes "marshal_Match m = Inr doc"
  shows "keys doc =
     (if BetID m = [] then [] else [''betId'']) @ [''matchDate''] @
     (if MatchID m = [] then [] else [''matchId'']) @ [''price'', ''side'', ''size'']"
  using assms unfolding marshal_Match_def
  by (auto dest!: object_keys members_omitempty_keys members_field_keys split del: if_split)

text \<open>The zero values of a runner and of a match, encoded.\<close>

lemma zero_Match_doc: "marshal_Match zero_Match =
    Inr (JObject [(''matchDate'', JTime zero_Time), (''price'', JString []),
      (''side'', JString []), (''size'', JFloat (Float32 0))])"
  by (simp add: marshal_Match_def zero_Match_def object_def omitempty_def field_def
      marshal_string_def marshal_float32_def marshal_Time_def zero_Time_def IsInf_or_IsNaN_def)

lemma zero_Runner_doc: "marshal_Runner zero_Runner =
    Inr (JObject [(''removalDate'', JTime zero_Time), (''sp'', JObject []), (''ex'', JObject [])])"
  by (simp add: marshal_Runner_def zero_Runner_def object_def omitempty_def field_def
      marshal_string_def marshal_float32_def marshal_Time_def zero_Time_def IsInf_or_IsNaN_def
      float32_eq_0_def marshal_StartingPrices_def marshal_ExchangePrices_def
      zero_StartingPrices_def zero_ExchangePrices_def)

lemma float32_eq_0_zero: "float32_eq_0 (Float32 0)"
  by (simp add: float32_eq_0_def)

lemma marshal_locale_only:
  "marshal_Params \<lparr>Params.MarketFilter = None, MarketIds = None, PriceProjection = None,
      MarketProjection = None, OrderProjection = [], MatchProjection = [],
      MaxResults = 0, Locale = ''en''\<rparr> = Inr (JObject [(''locale'', JString ''en'')])"
  by (simp add: marshal_Params_def object_def omitempty_def field_def marshal_string_def)

text \<open>
  A catalogue request for the text query \<open>cup\<close>, at most 5 results, the event
  projection and the locale \<open>en\<close>.
\<close>

lemma marshal_Params_example:
  "marshal_Params \<lparr>Params.MarketFilter = Some \<lparr>TextQuery = ''cup'', ExchangeIds = None,
        EventTypeIds = Some [''1''], EventIds = None, CompetitionIds = None,
        MarketCountries = None, MarketIds = None, MarketTypeCodes = None\<rparr>,
      MarketIds = None, PriceProjection = None,
      MarketProjection = Some [MarketProjectionEvent], OrderProjection = [],
      MatchProjection = [], MaxResults = 5, Locale = ''en''\<rparr>
   = Inr (JObject [
       (''filter'', JObject [(''textQuery'', JString ''cup''),
          (''eventTypeIds'', JArray [JString ''1''])]),
       (''marketProjection'', JArray [JString ''EVENT'']),
       (''maxResults'', JNumber 5),
       (''locale'', JString ''en'')])"
  by (simp add: marshal_Params_def marshal_MarketFilter_def object_def omitempty_def
      field_def marshal_string_def marshal_int_def MarketProjectionEvent_def)

section \<open>Request lemmas\<close>

text \<open>The three ways \<open>doBettingRequest\<close> ends, and the envelope it leaves.\<close>

lemma doBettingRequest_envelope:
  "envelope (doBettingRequest io s method params v) =
     params\<lparr>Params.Locale := Config.Locale (config s)\<rparr>"
  by (simp add: doBettingRequest_def Let_def split: sum.splits prod.splits option.splits)

lemma doBettingRequest_marshal_error:
  "json_Marshal io (params\<lparr>Params.Locale := Config.Locale (config s)\<rparr>) = Inl e \<Longrightarrow>
   reply_of (doBettingRequest io s method params v) =
     \<lparr>requests = [], results = v, err = Some e\<rparr>"
  by (simp add: doBettingRequest_def reply_of_def Let_def)

lemma doBettingRequest_transport_error:
  "json_Marshal io (params\<lparr>Params.Locale := Config.Locale (config s)\<rparr>) = Inr bytes \<Longrightarrow>
   doRequest io s ''betting'' (method @ ''/'') bytes = Inl e \<Longrightarrow>
   reply_of (doBettingRequest io s method params v) =
     \<lparr>requests = [(''betting'', method @ ''/'', bytes)], results = v, err = Some e\<rparr>"
  by (simp add: doBettingRequest_def reply_of_def Let_def)

lemma doBettingRequest_decoded:
  "json_Marshal io (params\<lparr>Params.Locale := Config.Locale (config s)\<rparr>) = Inr bytes \<Longrightarrow>
   doRequest io s ''betting'' (method @ ''/'') bytes = Inr data \<Longrightarrow>
   reply_of (doBettingRequest io s method params v) =
     \<lparr>requests = [(''betting'', method @ ''/'', bytes)],
      results = fst (json_Unmarshal io data v), err = snd (json_Unmarshal io data v)\<rparr>"
  by (simp add: doBettingRequest_def reply_of_def Let_def split: prod.splits option.splits)

lemma ListCompetitions_builds:
  "ListCompetitions io s fltr = reply_of (doBettingRequest io s ''listCompetitions''
      \<lparr>Params.MarketFilter = fltr, MarketIds = None, PriceProjection = None,
        MarketProjection = None, OrderProjection = [], MatchProjection = [],
        MaxResults = 0, Locale = []\<rparr> None)"
  by (simp add: ListCompetitions_def new_Params_def)

lemma ListCountries_builds:
  "ListCountries io s fltr = reply_of (doBettingRequest io s ''listCountries''
      \<lparr>Params.MarketFilter = fltr, MarketIds = None, PriceProjection = None,
        MarketProjection = None, OrderProjection = [], MatchProjection = [],
        MaxResults = 0, Locale = []\<rparr> None)"
  by (simp add: ListCountries_def new_Params_def)

lemma ListEvents_builds:
  "ListEvents io s fltr = reply_of (doBettingRequest io s ''listEvents''
      \<lparr>Params.MarketFilter = fltr, MarketIds = None, PriceProjection = None,
        MarketProjection = None, OrderProjection = [], MatchProjection = [],
        MaxResults = 0, Locale = []\<rparr> None)"
  by (simp add: ListEvents_def new_Params_def)

lemma ListEventTypes_builds:
  "ListEventTypes io s fltr = reply_of (doBettingRequest io s ''listEventTypes''
      \<lparr>Params.MarketFilter = fltr, MarketIds = None, PriceProjection = None,
        MarketProjection = None, OrderProjection = [], MatchProjection = [],
        MaxResults = 0, Locale = []\<rparr> None)"
  by (simp add: ListEventTypes_def new_Params_def)

lemma ListMarketTypes_builds:
  "ListMarketTypes io s fltr = reply_of (doBettingRequest io s ''listMarketTypes''
      \<lparr>Params.MarketFilter = fltr, MarketIds = None, PriceProjection = None,
        MarketProjection = None, OrderProjection = [], MatchProjection = [],
        MaxResults = 0, Locale = []\<rparr> None)"
  by (simp add: ListMarketTypes_def new_Params_def)

lemma ListMarketBook_builds:
  "ListMarketBook io s marketIds (Some pp) =
     Returns (reply_of (doBettingRequest io s ''listMarketBook''
      \<lparr>Params.MarketFilter = None, MarketIds = marketIds, PriceProjection = ProjectionParams.PriceProjection pp,
        MarketProjection = ProjectionParams.MarketProjection pp,
        OrderProjection = ProjectionParams.OrderProjection pp,
        MatchProjection = ProjectionParams.MatchProjection pp,
        MaxResults = 0, Locale = []\<rparr> None))"
  by (simp add: ListMarketBook_def new_Params_def)

lemma ListMarketCatalogue_builds:
  "ListMarketCatalogue io s fltr maxResults (Some pp) =
     Returns (reply_of (doBettingRequest io s ''listMarketCatalogue''
      \<lparr>Params.MarketFilter = fltr, MarketIds = None, PriceProjection = ProjectionParams.PriceProjection pp,
        MarketProjection = ProjectionParams.MarketProjection pp,
        OrderProjection = ProjectionParams.OrderProjection pp,
        MatchProjection = ProjectionParams.MatchProjection pp,
        MaxResults = maxResults, Locale = []\<rparr> None))"
  by (simp add: ListMarketCatalogue_def new_Params_def)

lemma doBettingRequest_calls:
  assumes "r = reply_of (doBettingRequest io s name params None)"
    and "path = name @ ''/''"
    and "p = params\<lparr>Params.Locale := Config.Locale (config s)\<rparr>"
  shows "serializes_calls_decodes io s path p r"
  unfolding assms by (auto simp: doBettingRequest_decoded)

lemma doBettingRequest_errors:
  assumes "r = reply_of (doBettingRequest io s method params None)"
    and "path = method @ ''/''"
    and "p = params\<lparr>Params.Locale := Config.Locale (config s)\<rparr>"
  shows "returns_errors_unchanged io s path p r"
  unfolding assms
  by (auto simp: doBettingRequest_marshal_error doBettingRequest_transport_error
      doBettingRequest_decoded)

lemma go_io_sent:
  "\<exists>body. marshal_Params (params\<lparr>Params.Locale := Config.Locale (config s)\<rparr>) = Inr body
     \<and> requests (reply_of (doBettingRequest (go_io d u) s name params v))
         = [(''betting'', name @ ''/'', body)]"
proof -
  obtain body where b: "marshal_Params (params\<lparr>Params.Locale := Config.Locale (config s)\<rparr>) = Inr body"
    using marshal_Params_ok by blast
  then show ?thesis
    by (simp add: doBettingRequest_def go_io_def reply_of_def Let_def
        split: sum.splits prod.splits option.splits)
qed

text \<open>The two versions encode the envelope of a filter-only operation alike.\<close>

lemma filter_only_payload:
  "marshal_Params_old (new_Params_old\<lparr>Params_old.MarketFilter := fltr, Params_old.Locale := l\<rparr>)
   = marshal_Params (new_Params\<lparr>Params.MarketFilter := fltr, Params.Locale := l\<rparr>)"
  by (simp add: marshal_Params_old_def marshal_Params_def new_Params_old_def new_Params_def
      omitempty_def)

lemma filter_only_requests_agree:
  "reply_of (doBettingRequest_old (go_io_old d u) s method
      (new_Params_old\<lparr>Params_old.MarketFilter := fltr\<rparr>) v)
   = reply_of (doBettingRequest (go_io d u) s method
      (new_Params\<lparr>Params.MarketFilter := fltr\<rparr>) v)"
  using filter_only_payload [where fltr = fltr and l = "Config.Locale (config s)"]
  by (simp add: doBettingRequest_old_def doBettingRequest_def go_io_old_def go_io_def
      reply_of_def Let_def split: sum.splits prod.splits option.splits)

section \<open>The document determines the value\<close>

text \<open>
  Two values with the same document are equal, field by field: a field that both
  documents lack is empty in both values, and a member both have is the encoding of
  the field in both.
\<close>

lemma object_Inr_D: "object fs = Inr doc \<Longrightarrow> \<exists>kvs. members fs = Inr kvs \<and> doc = JObject kvs"
  by (cases "members fs") (auto simp: object_def)























lemma marshal_EventTypeResult_not_null: "marshal_EventTypeResult r \<noteq> Inr JNull"
  by (auto simp: marshal_EventTypeResult_def dest: object_Inr_D)







lemma marshal_CompetitionResult_not_null: "marshal_CompetitionResult r \<noteq> Inr JNull"
  by (auto simp: marshal_CompetitionResult_def dest: object_Inr_D)



lemma marshal_CountryCodeResult_not_null: "marshal_CountryCodeResult r \<noteq> Inr JNull"
  by (auto simp: marshal_CountryCodeResult_def dest: object_Inr_D)







lemma marshal_EventResult_not_null: "marshal_EventResult r \<noteq> Inr JNull"
  by (auto simp: marshal_EventResult_def dest: object_Inr_D)



lemma marshal_PriceSize_not_null: "marshal_PriceSize r \<noteq> Inr JNull"
  by (auto simp: marshal_PriceSize_def dest: object_Inr_D)




lemma marshal_StartingPrices_not_null: "marshal_StartingPrices r \<noteq> Inr JNull"
  by (auto simp: marshal_StartingPrices_def dest: object_Inr_D)



lemma marshal_ExchangePrices_not_null: "marshal_ExchangePrices r \<noteq> Inr JNull"
  by (auto simp: marshal_ExchangePrices_def dest: object_Inr_D)



lemma marshal_Order_not_null: "marshal_Order r \<noteq> Inr JNull"
  by (auto simp: marshal_Order_def dest: object_Inr_D)




lemma marshal_Match_not_null: "marshal_Match r \<noteq> Inr JNull"
  by (auto simp: marshal_Match_def dest: object_Inr_D)




lemma marshal_Runner_not_null: "marshal_Runner r \<noteq> Inr JNull"
  by (auto simp: marshal_Runner_def dest: object_Inr_D)




lemma marshal_MarketBook_not_null: "marshal_MarketBook r \<noteq> Inr JNull"
  by (auto simp: marshal_MarketBook_def dest: object_Inr_D)



lemma marshal_RunnerCatalog_not_null: "marshal_RunnerCatalog r \<noteq> Inr JNull"
  by (auto simp: marshal_RunnerCatalog_def dest: object_Inr_D)








lemma marshal_MarketCatalogue_not_null: "marshal_MarketCatalogue r \<noteq> Inr JNull"
  by (auto simp: marshal_MarketCatalogue_def dest: object_Inr_D)



lemma marshal_MarketTypeResult_not_null: "marshal_MarketTypeResult r \<noteq> Inr JNull"
  by (auto simp: marshal_MarketTypeResult_def dest: object_Inr_D)






section \<open>Properties\<close>

text \<open>
  C1. Serializing a Params value with \<open>json.Marshal\<close> produces a JSON object whose
  keys, for the fields that are set, are exactly the wire names filter, marketIds,
  priceProjection, marketProjection, orderProjection, matchProjection, maxResults and
  locale, and no other spellings of those fields: the encoding never fails, each
  field that is not empty contributes its wire name, in the order of the
  declaration, and no other key is written.
\<close>

theorem Params_wire_names:
  "\<exists>doc. marshal_Params p = Inr doc
     \<and> keys doc =
         (if Params.MarketFilter p = None then [] else [''filter'']) @
         (if len (Params.MarketIds p) = 0 then [] else [''marketIds'']) @
         (if Params.PriceProjection p = None then [] else [''priceProjection'']) @
         (if len (Params.MarketProjection p) = 0 then [] else [''marketProjection'']) @
         (if Params.OrderProjection p = [] then [] else [''orderProjection'']) @
         (if Params.MatchProjection p = [] then [] else [''matchProjection'']) @
         (if Params.MaxResults p = 0 then [] else [''maxResults'']) @
         (if Params.Locale p = [] then [] else [''locale''])
     \<and> set (keys doc) \<subseteq> {''filter'', ''marketIds'', ''priceProjection'',
           ''marketProjection'', ''orderProjection'', ''matchProjection'', ''maxResults'',
           ''locale''}"
proof -
  obtain doc where doc: "marshal_Params p = Inr doc"
    using marshal_Params_ok by blast
  have "set (keys doc) \<subseteq> {''filter'', ''marketIds'', ''priceProjection'',
           ''marketProjection'', ''orderProjection'', ''matchProjection'', ''maxResults'',
           ''locale''}"
    unfolding Params_keys [OF doc] by (simp add: optional_subset split del: if_split)
  with doc Params_keys [OF doc] show ?thesis by blast
qed

text \<open>
  C2 (as amended). For Params, MarketFilter and PriceProjection, every field left at
  its zero value is absent from the marshalled object. For Runner and Match, whenever
  the encoding succeeds, every field tagged \<open>omitempty\<close> whose type is a number, a
  string or a slice and that is left at its zero value is absent; the fields
  \<open>price\<close>, \<open>side\<close> and \<open>size\<close> of a Match are tagged without \<open>omitempty\<close> and
  are always present.
\<close>

theorem zero_valued_optional_fields_omitted:
  "(\<exists>doc. marshal_Params p = Inr doc
      \<and> (Params.MarketFilter p = None \<longrightarrow> ''filter'' \<notin> set (keys doc))
      \<and> (Params.MarketIds p = None \<longrightarrow> ''marketIds'' \<notin> set (keys doc))
      \<and> (Params.PriceProjection p = None \<longrightarrow> ''priceProjection'' \<notin> set (keys doc))
      \<and> (Params.MarketProjection p = None \<longrightarrow> ''marketProjection'' \<notin> set (keys doc))
      \<and> (Params.OrderProjection p = [] \<longrightarrow> ''orderProjection'' \<notin> set (keys doc))
      \<and> (Params.MatchProjection p = [] \<longrightarrow> ''matchProjection'' \<notin> set (keys doc))
      \<and> (Params.MaxResults p = 0 \<longrightarrow> ''maxResults'' \<notin> set (keys doc))
      \<and> (Params.Locale p = [] \<longrightarrow> ''locale'' \<notin> set (keys doc)))
   \<and> (\<exists>doc. marshal_MarketFilter f = Inr doc
      \<and> (TextQuery f = [] \<longrightarrow> ''textQuery'' \<notin> set (keys doc))
      \<and> (ExchangeIds f = None \<longrightarrow> ''exchangeIds'' \<notin> set (keys doc))
      \<and> (EventTypeIds f = None \<longrightarrow> ''eventTypeIds'' \<notin> set (keys doc))
      \<and> (EventIds f = None \<longrightarrow> ''eventIds'' \<notin> set (keys doc))
      \<and> (CompetitionIds f = None \<longrightarrow> ''competitionIds'' \<notin> set (keys doc))
      \<and> (MarketCountries f = None \<longrightarrow> ''marketCountries'' \<notin> set (keys doc))
      \<and> (MarketFilter.MarketIds f = None \<longrightarrow> ''marketIds'' \<notin> set (keys doc))
      \<and> (MarketTypeCodes f = None \<longrightarrow> ''marketTypeCodes'' \<notin> set (keys doc)))
   \<and> (\<exists>doc. marshal_PriceProjection pp = Inr doc
      \<and> (PriceData pp = None \<longrightarrow> ''priceData'' \<notin> set (keys doc)))
   \<and> (\<forall>doc. marshal_Runner r = Inr doc \<longrightarrow>
        (SelectionID r = 0 \<longrightarrow> ''selectionId'' \<notin> set (keys doc))
      \<and> (Runner.Handicap r = Float32 0 \<longrightarrow> ''handicap'' \<notin> set (keys doc))
      \<and> (Runner.Status r = [] \<longrightarrow> ''status'' \<notin> set (keys doc))
      \<and> (AdjustmentFactor r = Float32 0 \<longrightarrow> ''adjustmentFactor'' \<notin> set (keys doc))
      \<and> (LastPriceTraded r = Float32 0 \<longrightarrow> ''lastPriceTraded'' \<notin> set (keys doc))
      \<and> (Runner.TotalMatched r = Float32 0 \<longrightarrow> ''totalMatched'' \<notin> set (keys doc))
      \<and> (Orders r = None \<longrightarrow> ''orders'' \<notin> set (keys doc))
      \<and> (Matches r = None \<longrightarrow> ''matches'' \<notin> set (keys doc)))
   \<and> (\<forall>doc. marshal_Match m = Inr doc \<longrightarrow>
        (BetID m = [] \<longrightarrow> ''betId'' \<notin> set (keys doc))
      \<and> (MatchID m = [] \<longrightarrow> ''matchId'' \<notin> set (keys doc))
      \<and> ''price'' \<in> set (keys doc) \<and> ''side'' \<in> set (keys doc)
      \<and> ''size'' \<in> set (keys doc))"
proof -
  obtain d1 where d1: "marshal_Params p = Inr d1"
    using marshal_Params_ok by blast
  have c1: "\<exists>doc. marshal_Params p = Inr doc
      \<and> (Params.MarketFilter p = None \<longrightarrow> ''filter'' \<notin> set (keys doc))
      \<and> (Params.MarketIds p = None \<longrightarrow> ''marketIds'' \<notin> set (keys doc))
      \<and> (Params.PriceProjection p = None \<longrightarrow> ''priceProjection'' \<notin> set (keys doc))
      \<and> (Params.MarketProjection p = None \<longrightarrow> ''marketProjection'' \<notin> set (keys doc))
      \<and> (Params.OrderProjection p = [] \<longrightarrow> ''orderProjection'' \<notin> set (keys doc))
      \<and> (Params.MatchProjection p = [] \<longrightarrow> ''matchProjection'' \<notin> set (keys doc))
      \<and> (Params.MaxResults p = 0 \<longrightarrow> ''maxResults'' \<notin> set (keys doc))
      \<and> (Params.Locale p = [] \<longrightarrow> ''locale'' \<notin> set (keys doc))"
    by (rule exI [of _ d1], unfold Params_keys [OF d1])
      (simp add: d1 in_optional split del: if_split)
  obtain d2 where d2: "marshal_MarketFilter f = Inr d2"
    using marshal_MarketFilter_ok by blast
  have c2: "\<exists>doc. marshal_MarketFilter f = Inr doc
      \<and> (TextQuery f = [] \<longrightarrow> ''textQuery'' \<notin> set (keys doc))
      \<and> (ExchangeIds f = None \<longrightarrow> ''exchangeIds'' \<notin> set (keys doc))
      \<and> (EventTypeIds f = None \<longrightarrow> ''eventTypeIds'' \<notin> set (keys doc))
      \<and> (EventIds f = None \<longrightarrow> ''eventIds'' \<notin> set (keys doc))
      \<and> (CompetitionIds f = None \<longrightarrow> ''competitionIds'' \<notin> set (keys doc))
      \<and> (MarketCountries f = None \<longrightarrow> ''marketCountries'' \<notin> set (keys doc))
      \<and> (MarketFilter.MarketIds f = None \<longrightarrow> ''marketIds'' \<notin> set (keys doc))
      \<and> (MarketTypeCodes f = None \<longrightarrow> ''marketTypeCodes'' \<notin> set (keys doc))"
    by (rule exI [of _ d2], unfold MarketFilter_keys [OF d2])
      (simp add: d2 in_optional split del: if_split)
  obtain d3 where d3: "marshal_PriceProjection pp = Inr d3"
    using marshal_PriceProjection_ok by blast
  have c3: "\<exists>doc. marshal_PriceProjection pp = Inr doc
      \<and> (PriceData pp = None \<longrightarrow> ''priceData'' \<notin> set (keys doc))"
    by (rule exI [of _ d3], unfold PriceProjection_keys [OF d3])
      (simp add: d3 in_optional split del: if_split)
  have c4: "\<forall>doc. marshal_Runner r = Inr doc \<longrightarrow>
        (SelectionID r = 0 \<longrightarrow> ''selectionId'' \<notin> set (keys doc))
      \<and> (Runner.Handicap r = Float32 0 \<longrightarrow> ''handicap'' \<notin> set (keys doc))
      \<and> (Runner.Status r = [] \<longrightarrow> ''status'' \<notin> set (keys doc))
      \<and> (AdjustmentFactor r = Float32 0 \<longrightarrow> ''adjustmentFactor'' \<notin> set (keys doc))
      \<and> (LastPriceTraded r = Float32 0 \<longrightarrow> ''lastPriceTraded'' \<notin> set (keys doc))
      \<and> (Runner.TotalMatched r = Float32 0 \<longrightarrow> ''totalMatched'' \<notin> set (keys doc))
      \<and> (Orders r = None \<longrightarrow> ''orders'' \<notin> set (keys doc))
      \<and> (Matches r = None \<longrightarrow> ''matches'' \<notin> set (keys doc))"
  proof (intro allI impI)
    fix doc assume d: "marshal_Runner r = Inr doc"
    show "(SelectionID r = 0 \<longrightarrow> ''selectionId'' \<notin> set (keys doc))
      \<and> (Runner.Handicap r = Float32 0 \<longrightarrow> ''handicap'' \<notin> set (keys doc))
      \<and> (Runner.Status r = [] \<longrightarrow> ''status'' \<notin> set (keys doc))
      \<and> (AdjustmentFactor r = Float32 0 \<longrightarrow> ''adjustmentFactor'' \<notin> set (keys doc))
      \<and> (LastPriceTraded r = Float32 0 \<longrightarrow> ''lastPriceTraded'' \<notin> set (keys doc))
      \<and> (Runner.TotalMatched r = Float32 0 \<longrightarrow> ''totalMatched'' \<notin> set (keys doc))
      \<and> (Orders r = None \<longrightarrow> ''orders'' \<notin> set (keys doc))
      \<and> (Matches r = None \<longrightarrow> ''matches'' \<notin> set (keys doc))"
      unfolding Runner_keys [OF d]
      by (simp add: in_optional float32_eq_0_zero split del: if_split)
  qed
  have c5: "\<forall>doc. marshal_Match m = Inr doc \<longrightarrow>
        (BetID m = [] \<longrightarrow> ''betId'' \<notin> set (keys doc))
      \<and> (MatchID m = [] \<longrightarrow> ''matchId'' \<notin> set (keys doc))
      \<and> ''price'' \<in> set (keys doc) \<and> ''side'' \<in> set (keys doc)
      \<and> ''size'' \<in> set (keys doc)"
  proof (intro allI impI)
    fix doc assume d: "marshal_Match m = Inr doc"
    show "(BetID m = [] \<longrightarrow> ''betId'' \<notin> set (keys doc))
      \<and> (MatchID m = [] \<longrightarrow> ''matchId'' \<notin> set (keys doc))
      \<and> ''price'' \<in> set (keys doc) \<and> ''side'' \<in> set (keys doc)
      \<and> ''size'' \<in> set (keys doc)"
      unfolding Match_keys [OF d]
      by (simp add: in_optional split del: if_split)
  qed
  show ?thesis
    by (rule conjI [OF c1 conjI [OF c2 conjI [OF c3 conjI [OF c4 c5]]]])
qed

text \<open>
  The theorem at the zero Runner, the zero Match and the zero Params, whose encodings
  succeed.
\<close>

theorem zero_valued_optional_fields_omitted_witness:
  "(\<exists>doc. marshal_Runner zero_Runner = Inr doc \<and> SelectionID zero_Runner = 0
      \<and> ''selectionId'' \<notin> set (keys doc))
   \<and> (\<exists>doc. marshal_Match zero_Match = Inr doc \<and> BetID zero_Match = []
      \<and> ''betId'' \<notin> set (keys doc) \<and> ''price'' \<in> set (keys doc))
   \<and> (\<exists>doc. marshal_Params new_Params = Inr doc \<and> Params.MaxResults new_Params = 0
      \<and> ''maxResults'' \<notin> set (keys doc))"
proof -
  note t = zero_valued_optional_fields_omitted [where r = zero_Runner and m = zero_Match
      and p = new_Params]
  have r: "SelectionID zero_Runner = 0" by (simp add: zero_Runner_def)
  have m: "BetID zero_Match = []" by (simp add: zero_Match_def)
  have p: "Params.MaxResults new_Params = 0" by (simp add: new_Params_def)
  have "\<exists>doc. marshal_Runner zero_Runner = Inr doc \<and> SelectionID zero_Runner = 0
      \<and> ''selectionId'' \<notin> set (keys doc)"
    using t [THEN conjunct2, THEN conjunct2, THEN conjunct2, THEN conjunct1, rule_format,
        OF zero_Runner_doc] r by (simp add: zero_Runner_doc)
  moreover have "\<exists>doc. marshal_Match zero_Match = Inr doc \<and> BetID zero_Match = []
      \<and> ''betId'' \<notin> set (keys doc) \<and> ''price'' \<in> set (keys doc)"
    using t [THEN conjunct2, THEN conjunct2, THEN conjunct2, THEN conjunct2, rule_format,
        OF zero_Match_doc] m by (simp add: zero_Match_doc)
  moreover have "\<exists>doc. marshal_Params new_Params = Inr doc \<and> Params.MaxResults new_Params = 0
      \<and> ''maxResults'' \<notin> set (keys doc)"
    using t [THEN conjunct1] p by blast
  ultimately show ?thesis by blast
qed

text \<open>
  C2 as stated fails: the zero Match is written with its \<open>price\<close>, \<open>side\<close> and
  \<open>size\<close>, all three at their zero values.
\<close>

theorem Match_zero_fields_written:
  "marshal_Match zero_Match =
    Inr (JObject [(''matchDate'', JTime zero_Time), (''price'', JString []),
      (''side'', JString []), (''size'', JFloat (Float32 0))])"
  by (fact zero_Match_doc)

text \<open>
  C3. Every enumerated constant (SideVal, OrderProjVal, MarketProjVal, MatchProjVal,
  PriceDataVal, RunnerStatusVal, OrderTypeVal, OrderStatusVal, PersistenceTypeVal)
  serializes as exactly its declared string literal; for example SideBack serializes
  as "BACK", SideLay as "LAY", and OrderProjectionAll as "ALL".
\<close>

theorem enumerated_constants_serialize:
  "marshal_string SideBack = Inr (JString ''BACK'')
   \<and> marshal_string SideLay = Inr (JString ''LAY'')
   \<and> marshal_string OrderProjectionAll = Inr (JString ''ALL'')
   \<and> marshal_string OrderProjectionExecutable = Inr (JString ''EXECUTABLE'')
   \<and> marshal_string OrderProjectionExecutionComplete = Inr (JString ''EXECUTION_COMPLETE'')
   \<and> marshal_string OrderStatusExecutionComplete = Inr (JString ''EXECUTION_COMPLETE'')
   \<and> marshal_string OrderStatusExecutable = Inr (JString ''EXECUTABLE'')
   \<and> marshal_string MatchProjectionNoRollup = Inr (JString ''NO_ROLLUP'')
   \<and> marshal_string MatchProjectionRolledUpByPrice = Inr (JString ''ROLLED_UP_BY_PRICE'')
   \<and> marshal_string MatchProjectionRolledUpByAvgPrice = Inr (JString ''ROLLED_UP_BY_AVG_PRICE'')
   \<and> marshal_string MarketProjectionCompetition = Inr (JString ''COMPETITION'')
   \<and> marshal_string MarketProjectionEvent = Inr (JString ''EVENT'')
   \<and> marshal_string MarketProjectionEventType = Inr (JString ''EVENT_TYPE'')
   \<and> marshal_string MarketProjectionMarketStartTime = Inr (JString ''MARKET_START_TIME'')
   \<and> marshal_string MarketProjectionMarketDescription = Inr (JString ''MARKET_DESCRIPTION'')
   \<and> marshal_string MarketProjectionRunnerDescription = Inr (JString ''RUNNER_DESCRIPTION'')
   \<and> marshal_string MarketProjectionRunnerMetadata = Inr (JString ''RUNNER_METADATA'')
   \<and> marshal_string PriceDataSPAvailable = Inr (JString ''SP_AVAILABLE'')
   \<and> marshal_string PriceDataSPTraded = Inr (JString ''SP_TRADED'')
   \<and> marshal_string PriceDataEXBestOffers = Inr (JString ''EX_BEST_OFFERS'')
   \<and> marshal_string PriceDataEXAllOffers = Inr (JString ''EX_ALL_OFFERS'')
   \<and> marshal_string PriceDataEXTraded = Inr (JString ''EX_TRADED'')
   \<and> marshal_string RunnerStatusActive = Inr (JString ''ACTIVE'')
   \<and> marshal_string RunnerStatusWinner = Inr (JString ''WINNER'')
   \<and> marshal_string RunnerStatusLoser = Inr (JString ''LOSER'')
   \<and> marshal_string RunnerStatusRemovedVacant = Inr (JString ''REMOVED_VACANT'')
   \<and> marshal_string RunnerStatusRemoved = Inr (JString ''REMOVED'')
   \<and> marshal_string RunnerStatusHidden = Inr (JString ''HIDDEN'')
   \<and> marshal_string PersistenceTypeLapse = Inr (JString ''LAPSE'')
   \<and> marshal_string PersistenceTypePersist = Inr (JString ''PERSIST'')
   \<and> marshal_string PersistenceTypeMarketOnClose = Inr (JString ''MARKET_ON_CLOSE'')
   \<and> marshal_string OrderTypeLimit = Inr (JString ''LIMIT'')
   \<and> marshal_string OrderTypeLimitOnClose = Inr (JString ''LIMIT_ON_CLOSE'')
   \<and> marshal_string OrderTypeMarketOnClose = Inr (JString ''MARKET_ON_CLOSE'')"
  by (simp add: marshal_string_def
      SideBack_def SideLay_def OrderProjectionAll_def OrderProjectionExecutable_def
      OrderProjectionExecutionComplete_def OrderStatusExecutionComplete_def
      OrderStatusExecutable_def MatchProjectionNoRollup_def
      MatchProjectionRolledUpByPrice_def MatchProjectionRolledUpByAvgPrice_def
      MarketProjectionCompetition_def MarketProjectionEvent_def
      MarketProjectionEventType_def MarketProjectionMarketStartTime_def
      MarketProjectionMarketDescription_def MarketProjectionRunnerDescription_def
      MarketProjectionRunnerMetadata_def PriceDataSPAvailable_def
      PriceDataSPTraded_def PriceDataEXBestOffers_def PriceDataEXAllOffers_def
      PriceDataEXTraded_def RunnerStatusActive_def RunnerStatusWinner_def
      RunnerStatusLoser_def RunnerStatusRemovedVacant_def RunnerStatusRemoved_def
      RunnerStatusHidden_def PersistenceTypeLapse_def PersistenceTypePersist_def
      PersistenceTypeMarketOnClose_def OrderTypeLimit_def OrderTypeLimitOnClose_def
      OrderTypeMarketOnClose_def)

text \<open>
  C4. For every session and every public operation (ListCompetitions, ListCountries,
  ListEvents, ListEventTypes, ListMarketBook, ListMarketCatalogue, ListMarketTypes),
  the request is built by the single shared helper \<open>doBettingRequest\<close>, which sets
  the locale field of the parameter envelope to the session's configured locale
  before JSON serialization, then performs the call and deserializes the typed
  response. The first two conjuncts are the helper: the envelope it leaves is the one
  it was given with the session's locale; once that envelope is encoded and the
  transport has answered, the encoded envelope is the body of the one request made,
  to the betting section under the method's path, and the reply is what the decoder
  makes of the response. The others are the seven operations: what each encodes and
  sends is the envelope of its own parameters with the session's locale
  (ListMarketBook and ListMarketCatalogue with non-nil projections).
\<close>

theorem operations_use_doBettingRequest:
  "envelope (doBettingRequest io s name params v) =
       params\<lparr>Params.Locale := Config.Locale (config s)\<rparr>
   \<and> serializes_calls_decodes io' s (name @ ''/'')
       (params\<lparr>Params.Locale := Config.Locale (config s)\<rparr>)
       (reply_of (doBettingRequest io' s name params None))
   \<and> serializes_calls_decodes io1 s ''listCompetitions/''
      \<lparr>Params.MarketFilter = fltr, MarketIds = None, PriceProjection = None,
        MarketProjection = None, OrderProjection = [], MatchProjection = [],
        MaxResults = 0, Locale = Config.Locale (config s)\<rparr>
      (ListCompetitions io1 s fltr)
   \<and> serializes_calls_decodes io2 s ''listCountries/''
      \<lparr>Params.MarketFilter = fltr, MarketIds = None, PriceProjection = None,
        MarketProjection = None, OrderProjection = [], MatchProjection = [],
        MaxResults = 0, Locale = Config.Locale (config s)\<rparr>
      (ListCountries io2 s fltr)
   \<and> serializes_calls_decodes io3 s ''listEvents/''
      \<lparr>Params.MarketFilter = fltr, MarketIds = None, PriceProjection = None,
        MarketProjection = None, OrderProjection = [], MatchProjection = [],
        MaxResults = 0, Locale = Config.Locale (config s)\<rparr>
      (ListEvents io3 s fltr)
   \<and> serializes_calls_decodes io4 s ''listEventTypes/''
      \<lparr>Params.MarketFilter = fltr, MarketIds = None, PriceProjection = None,
        MarketProjection = None, OrderProjection = [], MatchProjection = [],
        MaxResults = 0, Locale = Config.Locale (config s)\<rparr>
      (ListEventTypes io4 s fltr)
   \<and> serializes_calls_decodes io5 s ''listMarketTypes/''
      \<lparr>Params.MarketFilter = fltr, MarketIds = None, PriceProjection = None,
        MarketProjection = None, OrderProjection = [], MatchProjection = [],
        MaxResults = 0, Locale = Config.Locale (config s)\<rparr>
      (ListMarketTypes io5 s fltr)
   \<and> (\<exists>r. ListMarketBook io6 s marketIds (Some pp) = Returns r
      \<and> serializes_calls_decodes io6 s ''listMarketBook/''
      \<lparr>Params.MarketFilter = None, MarketIds = marketIds, PriceProjection = ProjectionParams.PriceProjection pp,
        MarketProjection = ProjectionParams.MarketProjection pp,
        OrderProjection = ProjectionParams.OrderProjection pp,
        MatchProjection = ProjectionParams.MatchProjection pp,
        MaxResults = 0, Locale = Config.Locale (config s)\<rparr> r)
   \<and> (\<exists>r. ListMarketCatalogue io7 s fltr maxResults (Some pp) = Returns r
      \<and> serializes_calls_decodes io7 s ''listMarketCatalogue/''
      \<lparr>Params.MarketFilter = fltr, MarketIds = None, PriceProjection = ProjectionParams.PriceProjection pp,
        MarketProjection = ProjectionParams.MarketProjection pp,
        OrderProjection = ProjectionParams.OrderProjection pp,
        MatchProjection = ProjectionParams.MatchProjection pp,
        MaxResults = maxResults, Locale = Config.Locale (config s)\<rparr> r)"
proof -
  have h1: "envelope (doBettingRequest io s name params v) =
       params\<lparr>Params.Locale := Config.Locale (config s)\<rparr>"
    by (rule doBettingRequest_envelope)
  have h2: "serializes_calls_decodes io' s (name @ ''/'')
       (params\<lparr>Params.Locale := Config.Locale (config s)\<rparr>)
       (reply_of (doBettingRequest io' s name params None))"
    by (rule doBettingRequest_calls [OF refl]) simp_all
  have c1: "serializes_calls_decodes io1 s ''listCompetitions/''
      \<lparr>Params.MarketFilter = fltr, MarketIds = None, PriceProjection = None,
        MarketProjection = None, OrderProjection = [], MatchProjection = [],
        MaxResults = 0, Locale = Config.Locale (config s)\<rparr>
      (ListCompetitions io1 s fltr)"
    by (rule doBettingRequest_calls [OF ListCompetitions_builds]) simp_all
  have c2: "serializes_calls_decodes io2 s ''listCountries/''
      \<lparr>Params.MarketFilter = fltr, MarketIds = None, PriceProjection = None,
        MarketProjection = None, OrderProjection = [], MatchProjection = [],
        MaxResults = 0, Locale = Config.Locale (config s)\<rparr>
      (ListCountries io2 s fltr)"
    by (rule doBettingRequest_calls [OF ListCountries_builds]) simp_all
  have c3: "serializes_calls_decodes io3 s ''listEvents/''
      \<lparr>Params.MarketFilter = fltr, MarketIds = None, PriceProjection = None,
        MarketProjection = None, OrderProjection = [], MatchProjection = [],
        MaxResults = 0, Locale = Config.Locale (config s)\<rparr>
      (ListEvents io3 s fltr)"
    by (rule doBettingRequest_calls [OF ListEvents_builds]) simp_all
  have c4: "serializes_calls_decodes io4 s ''listEventTypes/''
      \<lparr>Params.MarketFilter = fltr, MarketIds = None, PriceProjection = None,
        MarketProjection = None, OrderProjection = [], MatchProjection = [],
        MaxResults = 0, Locale = Config.Locale (config s)\<rparr>
      (ListEventTypes io4 s fltr)"
    by (rule doBettingRequest_calls [OF ListEventTypes_builds]) simp_all
  have c5: "serializes_calls_decodes io5 s ''listMarketTypes/''
      \<lparr>Params.MarketFilter = fltr, MarketIds = None, PriceProjection = None,
        MarketProjection = None, OrderProjection = [], MatchProjection = [],
        MaxResults = 0, Locale = Config.Locale (config s)\<rparr>
      (ListMarketTypes io5 s fltr)"
    by (rule doBettingRequest_calls [OF ListMarketTypes_builds]) simp_all
  have c6: "(\<exists>r. ListMarketBook io6 s marketIds (Some pp) = Returns r
      \<and> serializes_calls_decodes io6 s ''listMarketBook/''
      \<lparr>Params.MarketFilter = None, MarketIds = marketIds, PriceProjection = ProjectionParams.PriceProjection pp,
        MarketProjection = ProjectionParams.MarketProjection pp,
        OrderProjection = ProjectionParams.OrderProjection pp,
        MatchProjection = ProjectionParams.MatchProjection pp,
        MaxResults = 0, Locale = Config.Locale (config s)\<rparr> r)"
    by (rule exI, rule conjI, rule ListMarketBook_builds,
        rule doBettingRequest_calls [OF refl]) simp_all
  have c7: "(\<exists>r. ListMarketCatalogue io7 s fltr maxResults (Some pp) = Returns r
      \<and> serializes_calls_decodes io7 s ''listMarketCatalogue/''
      \<lparr>Params.MarketFilter = fltr, MarketIds = None, PriceProjection = ProjectionParams.PriceProjection pp,
        MarketProjection = ProjectionParams.MarketProjection pp,
        OrderProjection = ProjectionParams.OrderProjection pp,
        MatchProjection = ProjectionParams.MatchProjection pp,
        MaxResults = maxResults, Locale = Config.Locale (config s)\<rparr> r)"
    by (rule exI, rule conjI, rule ListMarketCatalogue_builds,
        rule doBettingRequest_calls [OF refl]) simp_all
  show ?thesis
    by (rule conjI [OF h1 conjI [OF h2 conjI [OF c1 conjI [OF c2 conjI [OF c3
      conjI [OF c4 conjI [OF c5 conjI [OF c6 c7]]]]]]]])
qed

text \<open>
  The theorem for ListCompetitions with a nil filter, a session whose locale is
  \<open>en\<close>, a transport that answers with the body it was sent and a decoder that
  yields an empty slice.
\<close>

theorem operations_use_doBettingRequest_witness:
  "ListCompetitions (go_io (\<lambda>s a b body. Inr body) (\<lambda>data v. (Some [], None)))
      example_session None
   = \<lparr>requests = [(''betting'', ''listCompetitions/'', JObject [(''locale'', JString ''en'')])],
      results = Some [], err = None\<rparr>"
proof -
  let ?io = "go_io (\<lambda>s a b body. Inr body) (\<lambda>data v. (Some [], None))
    :: (Params, (unit, unit) session, json, CompetitionResult slice) io"
  let ?doc = "JObject [(''locale'', JString ''en'')]"
  have "ListCompetitions ?io example_session None
     = \<lparr>requests = [(''betting'', ''listCompetitions/'', ?doc)],
        results = fst (json_Unmarshal ?io ?doc None),
        err = snd (json_Unmarshal ?io ?doc None)\<rparr>"
    by (rule operations_use_doBettingRequest
        [THEN conjunct2, THEN conjunct2, THEN conjunct1, rule_format])
      (simp add: go_io_def example_session_def marshal_locale_only)
  then show ?thesis by (simp add: go_io_def)
qed

text \<open>
  C5. For every public operation, if JSON encoding of the parameters, the HTTP
  transport call, or JSON decoding of the response fails, the operation returns that
  error value to the caller unchanged (no retry, recovery, wrapping or
  classification), and the returned result slice is the zero value (nil) when the
  failure occurs before decoding. ListMarketBook and ListMarketCatalogue are taken
  with non-nil projections (with nil ones they panic before any request).
\<close>

theorem operations_return_errors_unchanged:
  "returns_errors_unchanged io1 s ''listCompetitions/''
      \<lparr>Params.MarketFilter = fltr, MarketIds = None, PriceProjection = None,
        MarketProjection = None, OrderProjection = [], MatchProjection = [],
        MaxResults = 0, Locale = Config.Locale (config s)\<rparr>
      (ListCompetitions io1 s fltr)
   \<and> returns_errors_unchanged io2 s ''listCountries/''
      \<lparr>Params.MarketFilter = fltr, MarketIds = None, PriceProjection = None,
        MarketProjection = None, OrderProjection = [], MatchProjection = [],
        MaxResults = 0, Locale = Config.Locale (config s)\<rparr>
      (ListCountries io2 s fltr)
   \<and> returns_errors_unchanged io3 s ''listEvents/''
      \<lparr>Params.MarketFilter = fltr, MarketIds = None, PriceProjection = None,
        MarketProjection = None, OrderProjection = [], MatchProjection = [],
        MaxResults = 0, Locale = Config.Locale (config s)\<rparr>
      (ListEvents io3 s fltr)
   \<and> returns_errors_unchanged io4 s ''listEventTypes/''
      \<lparr>Params.MarketFilter = fltr, MarketIds = None, PriceProjection = None,
        MarketProjection = None, OrderProjection = [], MatchProjection = [],
        MaxResults = 0, Locale = Config.Locale (config s)\<rparr>
      (ListEventTypes io4 s fltr)
   \<and> returns_errors_unchanged io5 s ''listMarketTypes/''
      \<lparr>Params.MarketFilter = fltr, MarketIds = None, PriceProjection = None,
        MarketProjection = None, OrderProjection = [], MatchProjection = [],
        MaxResults = 0, Locale = Config.Locale (config s)\<rparr>
      (ListMarketTypes io5 s fltr)
   \<and> (\<exists>r. ListMarketBook io6 s marketIds (Some pp) = Returns r
      \<and> returns_errors_unchanged io6 s ''listMarketBook/''
      \<lparr>Params.MarketFilter = None, MarketIds = marketIds, PriceProjection = ProjectionParams.PriceProjection pp,
        MarketProjection = ProjectionParams.MarketProjection pp,
        OrderProjection = ProjectionParams.OrderProjection pp,
        MatchProjection = ProjectionParams.MatchProjection pp,
        MaxResults = 0, Locale = Config.Locale (config s)\<rparr> r)
   \<and> (\<exists>r. ListMarketCatalogue io7 s fltr maxResults (Some pp) = Returns r
      \<and> returns_errors_unchanged io7 s ''listMarketCatalogue/''
      \<lparr>Params.MarketFilter = fltr, MarketIds = None, PriceProjection = ProjectionParams.PriceProjection pp,
        MarketProjection = ProjectionParams.MarketProjection pp,
        OrderProjection = ProjectionParams.OrderProjection pp,
        MatchProjection = ProjectionParams.MatchProjection pp,
        MaxResults = maxResults, Locale = Config.Locale (config s)\<rparr> r)"
proof -
  have c1: "returns_errors_unchanged io1 s ''listCompetitions/''
      \<lparr>Params.MarketFilter = fltr, MarketIds = None, PriceProjection = None,
        MarketProjection = None, OrderProjection = [], MatchProjection = [],
        MaxResults = 0, Locale = Config.Locale (config s)\<rparr>
      (ListCompetitions io1 s fltr)"
    by (rule doBettingRequest_errors [OF ListCompetitions_builds]) simp_all
  have c2: "returns_errors_unchanged io2 s ''listCountries/''
      \<lparr>Params.MarketFilter = fltr, MarketIds = None, PriceProjection = None,
        MarketProjection = None, OrderProjection = [], MatchProjection = [],
        MaxResults = 0, Locale = Config.Locale (config s)\<rparr>
      (ListCountries io2 s fltr)"
    by (rule doBettingRequest_errors [OF ListCountries_builds]) simp_all
  have c3: "returns_errors_unchanged io3 s ''listEvents/''
      \<lparr>Params.MarketFilter = fltr, MarketIds = None, PriceProjection = None,
        MarketProjection = None, OrderProjection = [], MatchProjection = [],
        MaxResults = 0, Locale = Config.Locale (config s)\<rparr>
      (ListEvents io3 s fltr)"
    by (rule doBettingRequest_errors [OF ListEvents_builds]) simp_all
  have c4: "returns_errors_unchanged io4 s ''listEventTypes/''
      \<lparr>Params.MarketFilter = fltr, MarketIds = None, PriceProjection = None,
        MarketProjection = None, OrderProjection = [], MatchProjection = [],
        MaxResults = 0, Locale = Config.Locale (config s)\<rparr>
      (ListEventTypes io4 s fltr)"
    by (rule doBettingRequest_errors [OF ListEventTypes_builds]) simp_all
  have c5: "returns_errors_unchanged io5 s ''listMarketTypes/''
      \<lparr>Params.MarketFilter = fltr, MarketIds = None, PriceProjection = None,
        MarketProjection = None, OrderProjection = [], MatchProjection = [],
        MaxResults = 0, Locale = Config.Locale (config s)\<rparr>
      (ListMarketTypes io5 s fltr)"
    by (rule doBettingRequest_errors [OF ListMarketTypes_builds]) simp_all
  have c6: "(\<exists>r. ListMarketBook io6 s marketIds (Some pp) = Returns r
      \<and> returns_errors_unchanged io6 s ''listMarketBook/''
      \<lparr>Params.MarketFilter = None, MarketIds = marketIds, PriceProjection = ProjectionParams.PriceProjection pp,
        MarketProjection = ProjectionParams.MarketProjection pp,
        OrderProjection = ProjectionParams.OrderProjection pp,
        MatchProjection = ProjectionParams.MatchProjection pp,
        MaxResults = 0, Locale = Config.Locale (config s)\<rparr> r)"
    by (rule exI, rule conjI, rule ListMarketBook_builds,
        rule doBettingRequest_errors [OF refl]) simp_all
  have c7: "(\<exists>r. ListMarketCatalogue io7 s fltr maxResults (Some pp) = Returns r
      \<and> returns_errors_unchanged io7 s ''listMarketCatalogue/''
      \<lparr>Params.MarketFilter = fltr, MarketIds = None, PriceProjection = ProjectionParams.PriceProjection pp,
        MarketProjection = ProjectionParams.MarketProjection pp,
        OrderProjection = ProjectionParams.OrderProjection pp,
        MatchProjection = ProjectionParams.MatchProjection pp,
        MaxResults = maxResults, Locale = Config.Locale (config s)\<rparr> r)"
    by (rule exI, rule conjI, rule ListMarketCatalogue_builds,
        rule doBettingRequest_errors [OF refl]) simp_all
  show ?thesis
    by (rule conjI [OF c1 conjI [OF c2 conjI [OF c3 conjI [OF c4 conjI [OF c5
      conjI [OF c6 c7]]]]]])
qed

text \<open>
  The theorem for ListCompetitions with an encoder that fails, with a transport that
  fails, and with a decoder that fails after it has written an empty slice.
\<close>

theorem operations_return_errors_unchanged_witness:
  "ListCompetitions \<lparr>json_Marshal = (\<lambda>p. Inl (Error ''encode'')),
        doRequest = (\<lambda>s a b body. Inr body), json_Unmarshal = (\<lambda>data v. (Some [], None))\<rparr>
      example_session None
     = \<lparr>requests = [], results = None, err = Some (Error ''encode'')\<rparr>
   \<and> ListCompetitions (go_io (\<lambda>s a b body. Inl (Error ''transport''))
        (\<lambda>data v. (Some [], None))) example_session None
     = \<lparr>requests = [(''betting'', ''listCompetitions/'',
          JObject [(''locale'', JString ''en'')])],
        results = None, err = Some (Error ''transport'')\<rparr>
   \<and> ListCompetitions (go_io (\<lambda>s a b body. Inr body)
        (\<lambda>data v. (Some [], Some (Error ''decode'')))) example_session None
     = \<lparr>requests = [(''betting'', ''listCompetitions/'',
          JObject [(''locale'', JString ''en'')])],
        results = Some [], err = Some (Error ''decode'')\<rparr>"
proof (intro conjI)
  show "ListCompetitions \<lparr>json_Marshal = (\<lambda>p. Inl (Error ''encode'')),
        doRequest = (\<lambda>s a b body. Inr body), json_Unmarshal = (\<lambda>data v. (Some [], None))\<rparr>
      example_session None
     = \<lparr>requests = [], results = None, err = Some (Error ''encode'')\<rparr>"
    by (rule operations_return_errors_unchanged
        [THEN conjunct1, THEN conjunct1, rule_format]) simp
  show "ListCompetitions (go_io (\<lambda>s a b body. Inl (Error ''transport''))
        (\<lambda>data v. (Some [], None))) example_session None
     = \<lparr>requests = [(''betting'', ''listCompetitions/'',
          JObject [(''locale'', JString ''en'')])],
        results = None, err = Some (Error ''transport'')\<rparr>"
    by (rule operations_return_errors_unchanged
        [THEN conjunct1, THEN conjunct2, THEN conjunct1, rule_format])
      (simp add: go_io_def example_session_def marshal_locale_only)
  show "ListCompetitions (go_io (\<lambda>s a b body. Inr body)
        (\<lambda>data v. (Some [], Some (Error ''decode'')))) example_session None
     = \<lparr>requests = [(''betting'', ''listCompetitions/'',
          JObject [(''locale'', JString ''en'')])],
        results = Some [], err = Some (Error ''decode'')\<rparr>"
    by (rule operations_return_errors_unchanged
        [THEN conjunct1, THEN conjunct2, THEN conjunct2, rule_format])
      (simp add: go_io_def example_session_def marshal_locale_only)
qed




text \<open>
  C7. Each request-builder function populates only the envelope fields corresponding
  to its own parameters and leaves every other Params field at its zero value: the
  five filter-only operations set only MarketFilter; ListMarketBook sets only
  MarketIds and the four projection fields (MarketFilter stays nil);
  ListMarketCatalogue sets only MarketFilter, MaxResults and the four projection
  fields. The envelope shown is the one each operation hands to \<open>doBettingRequest\<close>,
  which then sets its Locale; ListMarketBook and ListMarketCatalogue are taken with
  non-nil projections (with nil ones \<open>SetProjections\<close> panics).
\<close>

theorem builders_populate_only_their_fields:
  "ListCompetitions io1 s fltr = reply_of (doBettingRequest io1 s ''listCompetitions''
      \<lparr>Params.MarketFilter = fltr, MarketIds = None, PriceProjection = None,
        MarketProjection = None, OrderProjection = [], MatchProjection = [],
        MaxResults = 0, Locale = []\<rparr> None)
   \<and> ListCountries io2 s fltr = reply_of (doBettingRequest io2 s ''listCountries''
      \<lparr>Params.MarketFilter = fltr, MarketIds = None, PriceProjection = None,
        MarketProjection = None, OrderProjection = [], MatchProjection = [],
        MaxResults = 0, Locale = []\<rparr> None)
   \<and> ListEvents io3 s fltr = reply_of (doBettingRequest io3 s ''listEvents''
      \<lparr>Params.MarketFilter = fltr, MarketIds = None, PriceProjection = None,
        MarketProjection = None, OrderProjection = [], MatchProjection = [],
        MaxResults = 0, Locale = []\<rparr> None)
   \<and> ListEventTypes io4 s fltr = reply_of (doBettingRequest io4 s ''listEventTypes''
      \<lparr>Params.MarketFilter = fltr, MarketIds = None, PriceProjection = None,
        MarketProjection = None, OrderProjection = [], MatchProjection = [],
        MaxResults = 0, Locale = []\<rparr> None)
   \<and> ListMarketTypes io5 s fltr = reply_of (doBettingRequest io5 s ''listMarketTypes''
      \<lparr>Params.MarketFilter = fltr, MarketIds = None, PriceProjection = None,
        MarketProjection = None, OrderProjection = [], MatchProjection = [],
        MaxResults = 0, Locale = []\<rparr> None)
   \<and> ListMarketBook io6 s marketIds (Some pp) =
     Returns (reply_of (doBettingRequest io6 s ''listMarketBook''
      \<lparr>Params.MarketFilter = None, MarketIds = marketIds, PriceProjection = ProjectionParams.PriceProjection pp,
        MarketProjection = ProjectionParams.MarketProjection pp,
        OrderProjection = ProjectionParams.OrderProjection pp,
        MatchProjection = ProjectionParams.MatchProjection pp,
        MaxResults = 0, Locale = []\<rparr> None))
   \<and> ListMarketCatalogue io7 s fltr maxResults (Some pp) =
     Returns (reply_of (doBettingRequest io7 s ''listMarketCatalogue''
      \<lparr>Params.MarketFilter = fltr, MarketIds = None, PriceProjection = ProjectionParams.PriceProjection pp,
        MarketProjection = ProjectionParams.MarketProjection pp,
        OrderProjection = ProjectionParams.OrderProjection pp,
        MatchProjection = ProjectionParams.MatchProjection pp,
        MaxResults = maxResults, Locale = []\<rparr> None))"
  by (intro conjI ListCompetitions_builds ListCountries_builds ListEvents_builds
      ListEventTypes_builds ListMarketTypes_builds ListMarketBook_builds
      ListMarketCatalogue_builds)

text \<open>
  C8. \<open>SetProjections\<close> copies exactly the four fields PriceProjection,
  MarketProjection, OrderProjection and MatchProjection from the given
  ProjectionParams into the receiver, and leaves the receiver's MarketFilter,
  MarketIds, MaxResults and Locale unchanged.
\<close>

theorem SetProjections_frame:
  "\<exists>p'. SetProjections p (Some params) = Returns p'
     \<and> Params.PriceProjection p' = ProjectionParams.PriceProjection params
     \<and> Params.MarketProjection p' = ProjectionParams.MarketProjection params
     \<and> Params.OrderProjection p' = ProjectionParams.OrderProjection params
     \<and> Params.MatchProjection p' = ProjectionParams.MatchProjection params
     \<and> Params.MarketFilter p' = Params.MarketFilter p
     \<and> Params.MarketIds p' = Params.MarketIds p
     \<and> Params.MaxResults p' = Params.MaxResults p
     \<and> Params.Locale p' = Params.Locale p"
  by simp

text \<open>
  C9. Calling ListMarketCatalogue with maxResults equal to 0 yields a serialized
  payload containing no maxResults key at all, and a session whose configured locale
  is the empty string yields a payload containing no locale key: the request body
  has the key \<open>maxResults\<close> exactly when maxResults is not 0 and the key \<open>locale\<close>
  exactly when the session's locale is not empty (for non-nil projections, the
  encoder being \<open>json.Marshal\<close>).
\<close>

theorem zero_maxResults_and_empty_locale_omitted:
  "\<exists>r body. ListMarketCatalogue (go_io d u) s fltr maxResults (Some pp) = Returns r
      \<and> requests r = [(''betting'', ''listMarketCatalogue/'', body)]
      \<and> (''maxResults'' \<in> set (keys body) \<longleftrightarrow> maxResults \<noteq> 0)
      \<and> (''locale'' \<in> set (keys body) \<longleftrightarrow> Config.Locale (config s) \<noteq> [])"
proof -
  let ?p = "\<lparr>Params.MarketFilter = fltr, MarketIds = None,
        PriceProjection = ProjectionParams.PriceProjection pp,
        MarketProjection = ProjectionParams.MarketProjection pp,
        OrderProjection = ProjectionParams.OrderProjection pp,
        MatchProjection = ProjectionParams.MatchProjection pp,
        MaxResults = maxResults, Locale = []\<rparr>"
  obtain body where b: "marshal_Params (?p\<lparr>Params.Locale := Config.Locale (config s)\<rparr>) = Inr body"
    and r: "requests (reply_of (doBettingRequest (go_io d u) s ''listMarketCatalogue'' ?p None))
         = [(''betting'', ''listMarketCatalogue'' @ ''/'', body)]"
    using go_io_sent [where params = ?p and s = s and d = d and u = u
        and name = "''listMarketCatalogue''" and v = None] by blast
  have "''maxResults'' \<in> set (keys body) \<longleftrightarrow> maxResults \<noteq> 0"
    unfolding Params_keys [OF b] by (simp add: in_optional split del: if_split)
  moreover have "''locale'' \<in> set (keys body) \<longleftrightarrow> Config.Locale (config s) \<noteq> []"
    unfolding Params_keys [OF b] by (simp add: in_optional split del: if_split)
  ultimately show ?thesis
    using r by (simp add: ListMarketCatalogue_builds)
qed

text \<open>
  C10. For the five filter-only operations (ListCompetitions, ListCountries,
  ListEvents, ListEventTypes, ListMarketTypes), the older source version and the
  current source version build identical request payloads for every input: same
  method name, same populated envelope fields, same serialized JSON. For every
  transport and decoder the two versions give the same reply, the requests sent
  included, and the two envelopes are encoded alike.
\<close>

theorem filter_only_versions_agree:
  "ListCompetitions_old (go_io_old d1 u1) s fltr = ListCompetitions (go_io d1 u1) s fltr
   \<and> ListCountries_old (go_io_old d2 u2) s fltr = ListCountries (go_io d2 u2) s fltr
   \<and> ListEvents_old (go_io_old d3 u3) s fltr = ListEvents (go_io d3 u3) s fltr
   \<and> ListEventTypes_old (go_io_old d4 u4) s fltr = ListEventTypes (go_io d4 u4) s fltr
   \<and> ListMarketTypes_old (go_io_old d5 u5) s fltr = ListMarketTypes (go_io d5 u5) s fltr
   \<and> marshal_Params_old
        (new_Params_old\<lparr>Params_old.MarketFilter := fltr, Params_old.Locale := l\<rparr>)
      = marshal_Params (new_Params\<lparr>Params.MarketFilter := fltr, Params.Locale := l\<rparr>)"
  by (simp add: ListCompetitions_old_def ListCountries_old_def ListEvents_old_def
      ListEventTypes_old_def ListMarketTypes_old_def ListCompetitions_def ListCountries_def
      ListEvents_def ListEventTypes_def ListMarketTypes_def filter_only_requests_agree
      filter_only_payload)

end
